theory Spec2Isabelle
  imports Main
begin

section \<open>Go values used by the crawler\<close>

text \<open>
  Errors are values. \<open>NoSuchElement\<close> and \<open>SessionError\<close> are the two ways a call into the
  browser session fails; \<open>NumError\<close> is the error of \<open>strconv.Atoi\<close> and
  \<open>strconv.ParseFloat\<close>.
\<close>

datatype error = NoSuchElement | SessionError | NumError

text \<open>
  How a Go function ends: it returns, it calls \<open>log.Fatalf\<close> (which ends the whole process
  with \<open>os.Exit(1)\<close>), or it panics at run time (index out of range, method call on a nil
  interface, failed type assertion).
\<close>

datatype 'a outcome = Returned 'a | Fatal | Panic

subsection \<open>Strings\<close>

text \<open>Go strings are byte sequences; \<open>string\<close> is a list of 8-bit characters.\<close>

definition isDigit :: "char \<Rightarrow> bool" where
  "isDigit c = (48 \<le> (of_char c :: nat) \<and> (of_char c :: nat) \<le> 57)"

definition digitVal :: "char \<Rightarrow> nat" where
  "digitVal c = (of_char c :: nat) - 48"

definition decimal :: "string \<Rightarrow> nat" where
  "decimal ds = foldl (\<lambda>n c. 10 * n + digitVal c) 0 ds"

text \<open>The range of Go's \<open>int\<close> on a 64-bit platform.\<close>

definition maxInt :: int where
  "maxInt = 2 ^ 63 - 1"

definition minInt :: int where
  "minInt = - (2 ^ 63)"

text \<open>
  \<open>strconv.Atoi\<close>: an optional sign, then one or more decimal digits and nothing else; a
  value outside the range of \<open>int\<close> is an error.
\<close>

definition Atoi :: "string \<Rightarrow> error + int" where
  "Atoi s =
     (let neg = (s \<noteq> [] \<and> hd s = CHR ''-'');
          ds = (if s \<noteq> [] \<and> (hd s = CHR ''-'' \<or> hd s = CHR ''+'') then tl s else s)
      in if ds = [] \<or> \<not> list_all isDigit ds then Inl NumError
         else if neg then (if - int (decimal ds) < minInt then Inl NumError
                           else Inr (- int (decimal ds)))
         else (if maxInt < int (decimal ds) then Inl NumError
               else Inr (int (decimal ds))))"

text \<open>\<open>fmt.Sprintf("%d", n)\<close>.\<close>

fun showNat :: "nat \<Rightarrow> string" where
  "showNat n = (if n < 10 then [char_of (48 + n)]
                else showNat (n div 10) @ [char_of (48 + n mod 10)])"

definition showInt :: "int \<Rightarrow> string" where
  "showInt i = (if i < 0 then CHR ''-'' # showNat (nat (- i)) else showNat (nat i))"

text \<open>\<open>strings.Split(s, sep)\<close> for a one-byte separator: never empty, \<open>[""]\<close> on \<open>""\<close>.\<close>

fun Split :: "string \<Rightarrow> char \<Rightarrow> string list" where
  "Split [] sep = [[]]"
| "Split (c # cs) sep =
     (if c = sep then [] # Split cs sep
      else (case Split cs sep of [] \<Rightarrow> [[c]] | seg # segs \<Rightarrow> (c # seg) # segs))"

text \<open>\<open>strings.Trim(s, " ")\<close>: leading and trailing spaces (U+0020 only) removed.\<close>

definition Trim_space :: "string \<Rightarrow> string" where
  "Trim_space s = rev (dropWhile (\<lambda>c. c = CHR '' '') (rev (dropWhile (\<lambda>c. c = CHR '' '') s)))"

text \<open>
  \<open>strings.TrimSpace\<close> removes leading and trailing Unicode white space. On the bytes of a
  string these are the UTF-8 encodings of the code points with the White_Space property:
  U+0009..U+000D, U+0020, U+0085, U+00A0, U+1680, U+2000..U+200A, U+2028, U+2029, U+202F,
  U+205F and U+3000.
\<close>

definition whiteSpace :: "string list" where
  "whiteSpace =
     [[CHR 0x09], [CHR 0x0A], [CHR 0x0B], [CHR 0x0C], [CHR 0x0D], [CHR 0x20],
      [CHR 0xC2, CHR 0x85], [CHR 0xC2, CHR 0xA0], [CHR 0xE1, CHR 0x9A, CHR 0x80],
      [CHR 0xE2, CHR 0x80, CHR 0x80], [CHR 0xE2, CHR 0x80, CHR 0x81],
      [CHR 0xE2, CHR 0x80, CHR 0x82], [CHR 0xE2, CHR 0x80, CHR 0x83],
      [CHR 0xE2, CHR 0x80, CHR 0x84], [CHR 0xE2, CHR 0x80, CHR 0x85],
      [CHR 0xE2, CHR 0x80, CHR 0x86], [CHR 0xE2, CHR 0x80, CHR 0x87],
      [CHR 0xE2, CHR 0x80, CHR 0x88], [CHR 0xE2, CHR 0x80, CHR 0x89],
      [CHR 0xE2, CHR 0x80, CHR 0x8A], [CHR 0xE2, CHR 0x80, CHR 0xA8],
      [CHR 0xE2, CHR 0x80, CHR 0xA9], [CHR 0xE2, CHR 0x80, CHR 0xAF],
      [CHR 0xE2, CHR 0x81, CHR 0x9F], [CHR 0xE3, CHR 0x80, CHR 0x80]]"

text \<open>The width in bytes of the white-space rune a string starts (ends) with, 0 if none.\<close>

definition leadingSpace :: "string \<Rightarrow> nat" where
  "leadingSpace s =
     (case find (\<lambda>w. take (length w) s = w) whiteSpace of
        None \<Rightarrow> 0 | Some w \<Rightarrow> length w)"

definition trailingSpace :: "string \<Rightarrow> nat" where
  "trailingSpace s =
     (case find (\<lambda>w. length w \<le> length s \<and> drop (length s - length w) s = w) whiteSpace of
        None \<Rightarrow> 0 | Some w \<Rightarrow> length w)"

text \<open>
  Each round removes at least one byte, so \<open>length s\<close> rounds are enough for either end.
\<close>

fun trimLeftRounds :: "nat \<Rightarrow> string \<Rightarrow> string" where
  "trimLeftRounds 0 s = s"
| "trimLeftRounds (Suc n) s =
     (if leadingSpace s = 0 then s else trimLeftRounds n (drop (leadingSpace s) s))"

fun trimRightRounds :: "nat \<Rightarrow> string \<Rightarrow> string" where
  "trimRightRounds 0 s = s"
| "trimRightRounds (Suc n) s =
     (if trailingSpace s = 0 then s
      else trimRightRounds n (take (length s - trailingSpace s) s))"

definition TrimSpace :: "string \<Rightarrow> string" where
  "TrimSpace s = trimRightRounds (length s) (trimLeftRounds (length s) s)"

section \<open>URL parsing\<close>

text \<open>
  \<open>regexp.MustCompile(`page=(\d+)`).FindStringSubmatch(url)\<close>: the leftmost match, the
  digit run taken greedily; the result is the whole match followed by the group, or nil
  (the empty list) when nothing matches.
\<close>

definition stripPrefix :: "string \<Rightarrow> string \<Rightarrow> string option" where
  "stripPrefix p s = (if take (length p) s = p then Some (drop (length p) s) else None)"

fun FindStringSubmatch_page :: "string \<Rightarrow> string list" where
  "FindStringSubmatch_page [] = []"
| "FindStringSubmatch_page (c # cs) =
     (case stripPrefix ''page='' (c # cs) of
        None \<Rightarrow> FindStringSubmatch_page cs
      | Some rest \<Rightarrow>
          if takeWhile isDigit rest = [] then FindStringSubmatch_page cs
          else [''page='' @ takeWhile isDigit rest, takeWhile isDigit rest])"

definition extractPageNumber :: "string \<Rightarrow> int" where
  "extractPageNumber url =
     (let matches = FindStringSubmatch_page url
      in if length matches < 2 then - 1
         else (case Atoi (matches ! 1) of Inl err \<Rightarrow> - 1 | Inr pageNo \<Rightarrow> pageNo))"

text \<open>\<open>regexp.MustCompile(`category=([^&]+)`).FindStringSubmatch(url)\<close>.\<close>

fun FindStringSubmatch_category :: "string \<Rightarrow> string list" where
  "FindStringSubmatch_category [] = []"
| "FindStringSubmatch_category (c # cs) =
     (case stripPrefix ''category='' (c # cs) of
        None \<Rightarrow> FindStringSubmatch_category cs
      | Some rest \<Rightarrow>
          if takeWhile (\<lambda>x. x \<noteq> CHR ''&'') rest = [] then FindStringSubmatch_category cs
          else [''category='' @ takeWhile (\<lambda>x. x \<noteq> CHR ''&'') rest,
                takeWhile (\<lambda>x. x \<noteq> CHR ''&'') rest])"

definition extractCategory :: "string \<Rightarrow> string" where
  "extractCategory url =
     (let matches = FindStringSubmatch_category url
      in if length matches < 2 then [] else matches ! 1)"

section \<open>The rendering session\<close>

text \<open>
  The browser session is outside the program: the model takes its answers as data. A
  \<open>WebElement\<close> answers \<open>Text()\<close>, \<open>GetAttribute(name)\<close>, \<open>Click()\<close> and
  \<open>FindElement(by, value)\<close>. A failed call returns the zero value together with a non-nil
  error: the empty string for the string-valued calls, the nil \<open>WebElement\<close> for
  \<open>FindElement\<close>.
\<close>

datatype locator = ByCSSSelector | ByTagName

datatype element = Element
  (Text: "error + string")
  (GetAttribute: "string \<Rightarrow> error + string")
  (Click: "error option")
  (FindElementIn: "locator \<Rightarrow> string \<Rightarrow> error + element")

text \<open>The string a call hands back: the value, or \<open>""\<close> beside an error.\<close>

definition strOf :: "error + string \<Rightarrow> string" where
  "strOf r = (case r of Inl err \<Rightarrow> [] | Inr s \<Rightarrow> s)"

text \<open>The test \<open>err == nil\<close>.\<close>

definition errNil :: "error + 'a \<Rightarrow> bool" where
  "errNil r = (case r of Inl err \<Rightarrow> False | Inr x \<Rightarrow> True)"

text \<open>
  \<open>float64\<close> is kept abstract: its zero, its addition, its comparison \<open>\<ge>\<close> and
  \<open>strconv.ParseFloat(s, 64)\<close> are parameters of the model.
\<close>

record 'f float64 =
  fzero :: 'f
  fadd :: "'f \<Rightarrow> 'f \<Rightarrow> 'f"
  fge :: "'f \<Rightarrow> 'f \<Rightarrow> bool"
  ParseFloat :: "string \<Rightarrow> error + 'f"

text \<open>
  \<open>ExecuteScript\<close> returns an \<open>interface{}\<close>; the scroll loop asserts it to be a
  \<open>float64\<close>.
\<close>

datatype 'f iface = Float64 'f | OtherValue

text \<open>
  What the session answers during one pass of the scroll loop: the error of the
  \<open>window.scrollBy\<close> script, then the three measurements.
\<close>

record 'f scroll_step =
  scrollBy :: "error option"
  scrollHeight :: "error + 'f iface"
  clientHeight :: "error + 'f iface"
  scrollTop :: "error + 'f iface"

text \<open>
  A page is what the session answers while one task is processed: the error of
  \<open>wd.Get\<close>, the two element queries, and the answers to the scroll scripts, pass by pass.
  Within one task every query is made at most once, so a function of the query loses
  nothing. (The script that adds the class \<open>isExpand\<close> only logs its error and is left out.)
\<close>

record 'f page =
  Get :: "error option"
  FindElement :: "locator \<Rightarrow> string \<Rightarrow> error + element"
  FindElements :: "locator \<Rightarrow> string \<Rightarrow> error + element list"
  scroll :: "nat \<Rightarrow> 'f scroll_step"

text \<open>Sequencing of steps that may end the function.\<close>

definition andThen :: "'a outcome \<Rightarrow> ('a \<Rightarrow> 'b outcome) \<Rightarrow> 'b outcome" where
  "andThen r f = (case r of Returned x \<Rightarrow> f x | Fatal \<Rightarrow> Fatal | Panic \<Rightarrow> Panic)"

section \<open>Page interaction primitives\<close>

text \<open>
  One pass of the loop of \<open>scrollToBottom\<close>: scroll, read the three measurements, test.
  \<open>Returned True\<close> is the \<open>break\<close>.
\<close>

definition scrollPass :: "'f float64 \<Rightarrow> 'f scroll_step \<Rightarrow> bool outcome" where
  "scrollPass F step =
     (case scrollBy step of Some err \<Rightarrow> Fatal
      | None \<Rightarrow>
     (case scrollHeight step of Inl err \<Rightarrow> Fatal
      | Inr sh \<Rightarrow>
     (case clientHeight step of Inl err \<Rightarrow> Fatal
      | Inr ch \<Rightarrow>
     (case scrollTop step of Inl err \<Rightarrow> Fatal
      | Inr st \<Rightarrow>
     (case st of OtherValue \<Rightarrow> Panic
      | Float64 t \<Rightarrow>
     (case ch of OtherValue \<Rightarrow> Panic
      | Float64 c \<Rightarrow>
     (case sh of OtherValue \<Rightarrow> Panic
      | Float64 h \<Rightarrow> Returned (fge F (fadd F t c) h))))))))"

text \<open>
  The loop has no bound, and its test stands at the end of the body. \<open>scrollLoop F steps k\<close>
  runs it after \<open>k\<close> iterations have been executed: iteration \<open>k\<close> (counted from 0) is
  answered with \<open>steps k\<close>. The result is the number of iterations executed when the loop
  returns, the one that ends it included (each issues one \<open>window.scrollBy\<close>); it is
  \<open>None\<close> when the loop runs forever.
\<close>

partial_function (option) scrollLoop ::
  "'f float64 \<Rightarrow> (nat \<Rightarrow> 'f scroll_step) \<Rightarrow> nat \<Rightarrow> nat outcome option" where
  "scrollLoop F steps k =
     (case scrollPass F (steps k) of
        Fatal \<Rightarrow> Some Fatal
      | Panic \<Rightarrow> Some Panic
      | Returned done \<Rightarrow>
          if done then Some (Returned (Suc k)) else scrollLoop F steps (Suc k))"

declare scrollLoop.simps [code]

definition scrollToBottom :: "'f float64 \<Rightarrow> 'f page \<Rightarrow> nat outcome option" where
  "scrollToBottom F page = scrollLoop F (scroll page) 0"

text \<open>\<open>closeModals\<close> clicks every close button; the result is the number of modals closed.\<close>

definition closeModals :: "'f page \<Rightarrow> nat" where
  "closeModals page =
     (case FindElements page ByCSSSelector ''.modal .boxClose'' of
        Inl err \<Rightarrow> 0
      | Inr closeButtons \<Rightarrow> length (filter (\<lambda>b. Click b = None) closeButtons))"

section \<open>Category and pagination discovery\<close>

definition getPageCount :: "'f page \<Rightarrow> int" where
  "getPageCount page =
     (case FindElement page ByCSSSelector ''.pageTotal'' of
        Inl err \<Rightarrow> 1
      | Inr pageTotalElem \<Rightarrow>
          (case Text pageTotalElem of
             Inl err \<Rightarrow> 1
           | Inr pageTotalText \<Rightarrow>
               (case Atoi (TrimSpace pageTotalText) of
                  Inl err \<Rightarrow> 1
                | Inr pageTotal \<Rightarrow> pageTotal)))"

text \<open>
  The loop \<open>for i := 1; i <= pageCount; i++\<close> of \<open>main\<close>, sending
  \<open>fmt.Sprintf("%s&page=%d", category, i)\<close>. With \<open>pageCount\<close> the largest \<open>int\<close> the
  counter wraps around and the loop never ends.
\<close>

definition pageURLs :: "string \<Rightarrow> int \<Rightarrow> string list option" where
  "pageURLs category pageCount =
     (if pageCount = maxInt then None
      else Some (map (\<lambda>i. category @ ''&page='' @ showInt i) [1..pageCount]))"

text \<open>The categories of the navigation region: the non-empty hrefs, made absolute.\<close>

fun categoryURLs :: "element list \<Rightarrow> string list \<Rightarrow> string list" where
  "categoryURLs [] categories = categories"
| "categoryURLs (elem # elems) categories =
     (case GetAttribute elem ''href'' of
        Inl err \<Rightarrow> categoryURLs elems categories
      | Inr href \<Rightarrow>
          if href \<noteq> [] then categoryURLs elems (categories @ [''https://shop.adidas.jp'' @ href])
          else categoryURLs elems categories)"

text \<open>
  The producer of \<open>main\<close>: only the category at index 1 is paginated. \<open>page\<close> is what the
  session answers for that category page. The result is the sequence of URLs sent on the
  channel.
\<close>

definition producer :: "string list \<Rightarrow> 'f page \<Rightarrow> string list outcome option" where
  "producer categories page =
     (if 1 < length categories then
        (case Get page of
           Some err \<Rightarrow> Some Fatal
         | None \<Rightarrow> map_option Returned (pageURLs (categories ! 1) (getPageCount page)))
      else Some (Returned []))"

section \<open>The data model\<close>

text \<open>
  The structs of the program. Isabelle's record fields share one name space, so the fields
  of the small structs carry the initials of their struct; those of \<open>Product\<close> keep their
  names.
\<close>

record ProductURL =
  pu_Category :: string
  pu_PageNo :: int
  pu_URL :: string

record ColorOption =
  co_Path :: string
  co_Color :: string

record 'f ReviewSummary =
  rs_Rating :: 'f
  rs_NumberOfReviews :: int
  rs_RecommendedRate :: string
  rs_Fit :: string
  rs_Length :: string
  rs_Quality :: string
  rs_Comfort :: string

record 'f Review =
  rv_Rating :: 'f
  rv_Title :: string
  rv_Description :: string
  rv_Date :: string
  rv_ReviewId :: string

record CoordinatedProduct =
  cp_Title :: string
  cp_Price :: string
  cp_Path :: string
  cp_ProductNumber :: string
  cp_ProductURL :: string

record SpecialDescription =
  sd_Title :: string
  sd_Description :: string

record Media =
  md_Type :: string
  md_Path :: string

text \<open>
  A Go map is nil or a table; \<open>None\<close> is the nil map, the zero value of a map type, and
  \<open>Some Map.empty\<close> is what \<open>make\<close> returns. A slice built by \<open>append\<close> from nil is nil
  exactly when it is empty, so a list stands for it.
\<close>

type_synonym sizeRow = "(string \<rightharpoonup> string) option list"

type_synonym sizeChart = "string \<rightharpoonup> sizeRow"

record 'f Product =
  ProductURL :: string
  Breadcrumbs :: "string list"
  Category :: string
  Title :: string
  Price :: string
  AvailableColors :: "ColorOption list"
  AvailableSizes :: "string list"
  Media :: "Media list"
  CoordinatedProducts :: "CoordinatedProduct list"
  DescriptionHeading :: string
  DescriptionTitle :: string
  Description :: string
  Specifications :: "string list"
  SpecialDescription :: "SpecialDescription list"
  SizeChart :: "sizeChart option"
  SizeRemarks :: "string list"
  ReviewSummary :: "'f ReviewSummary"
  Reviews :: "'f Review list"
  Tags :: "string list"

text \<open>A pointer is nil or points to a value.\<close>

datatype 'a ptr = NilPtr | Ptr 'a

text \<open>The zero values.\<close>

definition zeroReviewSummary :: "'f float64 \<Rightarrow> 'f ReviewSummary" where
  "zeroReviewSummary F =
     \<lparr>rs_Rating = fzero F, rs_NumberOfReviews = 0, rs_RecommendedRate = [], rs_Fit = [],
      rs_Length = [], rs_Quality = [], rs_Comfort = []\<rparr>"

definition zeroSpecialDescription :: SpecialDescription where
  "zeroSpecialDescription = \<lparr>sd_Title = [], sd_Description = []\<rparr>"


section \<open>The field extraction pipeline\<close>

definition baseURL :: string where
  "baseURL = ''https://shop.adidas.jp''"

text \<open>
  The pattern of the single-text fields: find the element, read its text, keep the zero
  value on either failure.
\<close>

definition textField :: "'f page \<Rightarrow> string \<Rightarrow> string" where
  "textField page selector =
     (case FindElement page ByCSSSelector selector of
        Inl err \<Rightarrow> []
      | Inr el \<Rightarrow> (case Text el of Inl err \<Rightarrow> [] | Inr text \<Rightarrow> text))"

text \<open>The pattern of the text lists: the non-empty texts that could be read, in order.\<close>

fun nonEmptyTexts :: "element list \<Rightarrow> string list \<Rightarrow> string list" where
  "nonEmptyTexts [] acc = acc"
| "nonEmptyTexts (el # els) acc =
     (case Text el of
        Inl err \<Rightarrow> nonEmptyTexts els acc
      | Inr text \<Rightarrow> if text \<noteq> [] then nonEmptyTexts els (acc @ [text])
                    else nonEmptyTexts els acc)"

subsection \<open>Breadcrumbs\<close>

fun breadcrumbLoop :: "nat \<Rightarrow> element list \<Rightarrow> string list \<Rightarrow> string list" where
  "breadcrumbLoop key [] acc = acc"
| "breadcrumbLoop key (el # els) acc =
     (case Text el of
        Inl err \<Rightarrow> breadcrumbLoop (Suc key) els acc
      | Inr text \<Rightarrow>
          if text \<noteq> [] \<and> key \<noteq> 0 \<and> key \<noteq> 1 then breadcrumbLoop (Suc key) els (acc @ [text])
          else breadcrumbLoop (Suc key) els acc)"

definition breadcrumbs :: "'f page \<Rightarrow> string list" where
  "breadcrumbs page =
     (case FindElements page ByCSSSelector ''.breadcrumbListItem a'' of
        Inl err \<Rightarrow> []
      | Inr breadcrumbElements \<Rightarrow> breadcrumbLoop 0 breadcrumbElements [])"

subsection \<open>Colours, sizes, media\<close>

fun colorLoop :: "element list \<Rightarrow> ColorOption list \<Rightarrow> ColorOption list" where
  "colorLoop [] acc = acc"
| "colorLoop (el # els) acc =
     (case FindElementIn el ByTagName ''img'' of
        Inl err \<Rightarrow> colorLoop els acc
      | Inr imgElement \<Rightarrow>
          (let imageSrc = strOf (GetAttribute imgElement ''src'');
               color = strOf (GetAttribute imgElement ''alt'')
           in if imageSrc \<noteq> [] \<and> color \<noteq> []
              then colorLoop els (acc @ [\<lparr>co_Path = baseURL @ imageSrc, co_Color = color\<rparr>])
              else colorLoop els acc))"

definition availableColors :: "'f page \<Rightarrow> ColorOption list outcome" where
  "availableColors page =
     (case FindElements page ByCSSSelector
             ''.selectable-image-group .selectableImageListItem'' of
        Inl err \<Rightarrow> Fatal
      | Inr colorOptionElements \<Rightarrow> Returned (colorLoop colorOptionElements []))"

definition availableSizes :: "'f page \<Rightarrow> string list outcome" where
  "availableSizes page =
     (case FindElements page ByCSSSelector
             ''.sizeSelectorList .sizeSelectorListItemButton'' of
        Inl err \<Rightarrow> Fatal
      | Inr sizeElements \<Rightarrow> Returned (nonEmptyTexts sizeElements []))"

fun mediaLoop :: "string \<Rightarrow> element list \<Rightarrow> Media list \<Rightarrow> Media list outcome" where
  "mediaLoop kind [] acc = Returned acc"
| "mediaLoop kind (el # els) acc =
     (case GetAttribute el ''src'' of
        Inl err \<Rightarrow> Fatal
      | Inr src \<Rightarrow> mediaLoop kind els (acc @ [\<lparr>md_Type = kind, md_Path = baseURL @ src\<rparr>]))"

definition media :: "'f page \<Rightarrow> Media list outcome" where
  "media page =
     (case FindElements page ByCSSSelector ''.article_image_wrapper img.test-img'' of
        Inl err \<Rightarrow> Fatal
      | Inr imageElements \<Rightarrow>
          andThen (mediaLoop ''image'' imageElements []) (\<lambda>images.
            (case FindElements page ByCSSSelector ''.pdp-article-video-wrap video'' of
               Inl err \<Rightarrow> Fatal
             | Inr videoElements \<Rightarrow> mediaLoop ''video'' videoElements images)))"

subsection \<open>Coordinated products\<close>

text \<open>
  One card. The image element is looked up once; its \<open>alt\<close> is read under the check
  \<open>err == nil\<close>, its \<open>src\<close> without one, so on a card without the image the second read is a
  method call on a nil \<open>WebElement\<close>.
\<close>

definition coordinatedCard :: "element \<Rightarrow> CoordinatedProduct outcome" where
  "coordinatedCard productElement =
     (let productNameElement = FindElementIn productElement ByCSSSelector
                                 ''.coordinate_image img'';
          title = (case productNameElement of
                     Inl err \<Rightarrow> []
                   | Inr el \<Rightarrow> (case GetAttribute el ''alt'' of
                                 Inl err \<Rightarrow> [] | Inr productName \<Rightarrow> productName));
          price = (case FindElementIn productElement ByCSSSelector
                          ''.price-value.test-price-value'' of
                     Inl err \<Rightarrow> []
                   | Inr priceElement \<Rightarrow> (case Text priceElement of
                                 Inl err \<Rightarrow> [] | Inr p \<Rightarrow> p))
      in case productNameElement of
           Inl err \<Rightarrow> Panic
         | Inr el \<Rightarrow>
             (let src = GetAttribute el ''src'';
                  imageURL = strOf src;
                  path = (case src of Inl err \<Rightarrow> [] | Inr u \<Rightarrow> baseURL @ imageURL);
                  urlParts = Split imageURL (CHR ''/'');
                  productNumber = (if 3 < length urlParts then urlParts ! 3 else [])
              in Returned \<lparr>cp_Title = title, cp_Price = price, cp_Path = path,
                           cp_ProductNumber = productNumber,
                           cp_ProductURL = ''https://shop.adidas.jp/products/'' @ productNumber\<rparr>))"

fun coordinatedLoop ::
  "element list \<Rightarrow> CoordinatedProduct list \<Rightarrow> CoordinatedProduct list outcome" where
  "coordinatedLoop [] acc = Returned acc"
| "coordinatedLoop (productElement # els) acc =
     andThen (coordinatedCard productElement) (\<lambda>coorProduct.
       coordinatedLoop els (acc @ [coorProduct]))"

definition coordinatedProducts :: "'f page \<Rightarrow> CoordinatedProduct list outcome" where
  "coordinatedProducts page =
     (case FindElements page ByCSSSelector ''.coordinateItems .carouselListitem'' of
        Inl err \<Rightarrow> Returned []
      | Inr productElements \<Rightarrow> coordinatedLoop productElements [])"

subsection \<open>Description\<close>

fun specificationLoop :: "element list \<Rightarrow> string list \<Rightarrow> string list" where
  "specificationLoop [] acc = acc"
| "specificationLoop (item # items) acc =
     (case Text item of
        Inl err \<Rightarrow> specificationLoop items acc
      | Inr itemText \<Rightarrow> specificationLoop items (acc @ [itemText]))"

definition specifications :: "'f page \<Rightarrow> string list" where
  "specifications page =
     (case FindElements page ByCSSSelector
             ''.articleFeatures.description_part .articleFeaturesItem'' of
        Inl err \<Rightarrow> []
      | Inr specificationItems \<Rightarrow> specificationLoop specificationItems [])"

text \<open>
  The special descriptions. The variable \<open>specialDescription\<close> is declared before the loop
  and is the second argument here; every pass appends its current value.
\<close>

fun specialLoop ::
  "element list \<Rightarrow> SpecialDescription \<Rightarrow> SpecialDescription list \<Rightarrow> SpecialDescription list"
  where
  "specialLoop [] specialDescription acc = acc"
| "specialLoop (content # contents) specialDescription acc =
     (let titleElement = FindElementIn content ByCSSSelector ''.tecTextTitle'';
          imgAltElement = FindElementIn content ByCSSSelector
                            ''div.item_part.illustration img'';
          specialDescription' =
            (case titleElement of
               Inl titleErr \<Rightarrow> specialDescription
             | Inr te \<Rightarrow>
                 (case imgAltElement of
                    Inl imgAltErr \<Rightarrow> specialDescription
                  | Inr ie \<Rightarrow>
                      (let title = strOf (Text te);
                           imgAlt = strOf (GetAttribute ie ''alt'')
                       in if title \<noteq> [] \<and> imgAlt \<noteq> []
                          then specialDescription\<lparr>sd_Title := title, sd_Description := imgAlt\<rparr>
                          else specialDescription)))
      in specialLoop contents specialDescription' (acc @ [specialDescription']))"

definition specialDescriptions :: "'f page \<Rightarrow> SpecialDescription list" where
  "specialDescriptions page =
     (case FindElements page ByCSSSelector ''.contents .content'' of
        Inl err \<Rightarrow> []
      | Inr contentElements \<Rightarrow> specialLoop contentElements zeroSpecialDescription [])"

subsection \<open>Size chart\<close>

fun headerLoop :: "element list \<Rightarrow> string list \<Rightarrow> string list outcome" where
  "headerLoop [] headers = Returned headers"
| "headerLoop (elem # elems) headers =
     (case Text elem of
        Inl err \<Rightarrow> Fatal
      | Inr text \<Rightarrow> if text \<noteq> [] then headerLoop elems (headers @ [text])
                    else headerLoop elems headers)"

fun sizeKeyLoop :: "element list \<Rightarrow> string list \<Rightarrow> string list outcome" where
  "sizeKeyLoop [] sizeKeys = Returned sizeKeys"
| "sizeKeyLoop (elem # elems) sizeKeys =
     (case Text elem of
        Inl err \<Rightarrow> Fatal
      | Inr text \<Rightarrow> sizeKeyLoop elems (sizeKeys @ [text]))"

text \<open>
  \<open>fmt.Sprintf(".sizeChartTable tbody .sizeChartTRow:nth-of-type(%d) .sizeChartTCell span", n)\<close>.
\<close>

definition rowSelector :: "int \<Rightarrow> string" where
  "rowSelector n =
     ''.sizeChartTable tbody .sizeChartTRow:nth-of-type('' @ showInt n @ '') .sizeChartTCell span''"

text \<open>
  The inner loop fills the slice \<open>sizeChart[header]\<close>, made with \<open>len(sizeKeys)\<close> nil maps;
  a cell beyond that length is an index out of range.
\<close>

fun cellLoop :: "string list \<Rightarrow> nat \<Rightarrow> element list \<Rightarrow> sizeRow \<Rightarrow> sizeRow outcome" where
  "cellLoop sizeKeys j [] column = Returned column"
| "cellLoop sizeKeys j (row # rows) column =
     (case Text row of
        Inl err \<Rightarrow> Fatal
      | Inr text \<Rightarrow>
          if j < length sizeKeys
          then cellLoop sizeKeys (Suc j) rows (column[j := Some [sizeKeys ! j \<mapsto> text]])
          else Panic)"

fun columnLoop ::
  "'f page \<Rightarrow> string list \<Rightarrow> nat \<Rightarrow> string list \<Rightarrow> sizeChart \<Rightarrow> sizeChart outcome" where
  "columnLoop page sizeKeys i [] chart = Returned chart"
| "columnLoop page sizeKeys i (header # headers) chart =
     (case FindElements page ByCSSSelector (rowSelector (int i + 2)) of
        Inl err \<Rightarrow> Fatal
      | Inr rows \<Rightarrow>
          andThen (cellLoop sizeKeys 0 rows (replicate (length sizeKeys) None)) (\<lambda>column.
            columnLoop page sizeKeys (Suc i) headers (chart(header \<mapsto> column))))"

definition sizeChart :: "'f page \<Rightarrow> sizeChart outcome" where
  "sizeChart page =
     (case FindElements page ByCSSSelector ''.sizeChartTable thead .sizeChartTHeaderCell'' of
        Inl err \<Rightarrow> Fatal
      | Inr headerElems \<Rightarrow>
          andThen (headerLoop headerElems []) (\<lambda>headers.
            (case FindElements page ByCSSSelector
                    ''.sizeChartTable tbody .sizeChartTRow:nth-of-type(1) .sizeChartTCell span'' of
               Inl err \<Rightarrow> Fatal
             | Inr sizeKeysElems \<Rightarrow>
                 andThen (sizeKeyLoop sizeKeysElems []) (\<lambda>sizeKeys.
                   columnLoop page sizeKeys 0 headers Map.empty))))"

definition sizeRemarks :: "'f page \<Rightarrow> string list" where
  "sizeRemarks page =
     (case FindElements page ByCSSSelector
             ''.remarkList.test-remarkList .sizeDescriptionRemark'' of
        Inl err \<Rightarrow> []
      | Inr remarkElements \<Rightarrow> nonEmptyTexts remarkElements [])"

subsection \<open>Review summary\<close>

fun summaryLoop :: "nat \<Rightarrow> element list \<Rightarrow> 'f ReviewSummary \<Rightarrow> 'f ReviewSummary" where
  "summaryLoop key [] reviewSummary = reviewSummary"
| "summaryLoop key (overAll # els) reviewSummary =
     summaryLoop (Suc key) els
       (case GetAttribute overAll ''title'' of
          Inl err \<Rightarrow> reviewSummary
        | Inr overAllText \<Rightarrow>
            if key = 0 then reviewSummary\<lparr>rs_Fit := overAllText\<rparr>
            else if key = 1 then reviewSummary\<lparr>rs_Length := overAllText\<rparr>
            else if key = 2 then reviewSummary\<lparr>rs_Quality := overAllText\<rparr>
            else if key = 3 then reviewSummary\<lparr>rs_Comfort := overAllText\<rparr>
            else reviewSummary)"

definition reviewSummary :: "'f float64 \<Rightarrow> 'f page \<Rightarrow> 'f ReviewSummary" where
  "reviewSummary F page =
     (let rating =
            (case FindElement page ByCSSSelector
                    ''.BVRRRating.BVRRRatingNormal.BVRRRatingOverall .BVRRRatingNormalOutOf .BVRRRatingNumber'' of
               Inl err \<Rightarrow> fzero F
             | Inr ratingElement \<Rightarrow>
                 (case Text ratingElement of
                    Inl err \<Rightarrow> fzero F
                  | Inr totalRating \<Rightarrow>
                      (case ParseFloat F totalRating of
                         Inl err \<Rightarrow> fzero F
                       | Inr convertedRating \<Rightarrow> convertedRating)));
          numberOfReviews =
            (case FindElement page ByCSSSelector
                    ''.BVRRQuickTakeCustomWrapper .BVRRBuyAgainTotal'' of
               Inl err \<Rightarrow> 0
             | Inr numberOfRatingElement \<Rightarrow>
                 (case Text numberOfRatingElement of
                    Inl err \<Rightarrow> 0
                  | Inr numberOfRating \<Rightarrow>
                      (case Atoi numberOfRating of Inl err \<Rightarrow> 0 | Inr convert \<Rightarrow> convert)));
          recommendedRate =
            (case FindElement page ByCSSSelector
                    ''.BVRRQuickTakeCustomWrapper .BVRRBuyAgainPercentage'' of
               Inl err \<Rightarrow> []
             | Inr recommededElement \<Rightarrow>
                 (case Text recommededElement of
                    Inl err \<Rightarrow> ''0.00%''
                  | Inr recommeded_percentage \<Rightarrow> recommeded_percentage));
          summary = (zeroReviewSummary F)
                      \<lparr>rs_Rating := rating, rs_NumberOfReviews := numberOfReviews,
                       rs_RecommendedRate := recommendedRate\<rparr>
      in case FindElements page ByCSSSelector
                ''.BVRRSecondaryRatingsContainer .BVRRRatingRadioImage img'' of
           Inl err \<Rightarrow> summary
         | Inr summaryElements \<Rightarrow> summaryLoop 0 summaryElements summary)"

subsection \<open>Reviews\<close>

text \<open>
  The rating of one review block. The title is split on \<open>/\<close> before the checks and the
  segment at index 1 is parsed; the index is not guarded.
\<close>

definition reviewRating :: "'f float64 \<Rightarrow> element \<Rightarrow> 'f outcome" where
  "reviewRating F review =
     (case FindElementIn review ByCSSSelector
             ''.BVRRReviewDisplayStyle5Header .BVRRRatingNormalImage img'' of
        Inl err \<Rightarrow> Returned (fzero F)
      | Inr ratingValueElement \<Rightarrow>
          (let r = GetAttribute ratingValueElement ''title'';
               ratingValueText = strOf r;
               ratingText = Split ratingValueText (CHR ''/'')
           in if errNil r \<and> ratingValueText \<noteq> [] then
                (if 1 < length ratingText then
                   (case ParseFloat F (Trim_space (ratingText ! 1)) of
                      Inl err \<Rightarrow> Returned (fzero F)
                    | Inr convertedRating \<Rightarrow> Returned convertedRating)
                 else Panic)
              else Returned (fzero F)))"

definition reviewDate :: "element \<Rightarrow> string" where
  "reviewDate review =
     (case FindElementIn review ByCSSSelector ''.BVRRReviewDateContainer meta'' of
        Inl err \<Rightarrow> []
      | Inr reviewDateElement \<Rightarrow>
          (case GetAttribute reviewDateElement ''content'' of
             Inl err \<Rightarrow> []
           | Inr reviewDateText \<Rightarrow> if reviewDateText \<noteq> [] then reviewDateText else []))"

definition reviewText :: "element \<Rightarrow> string \<Rightarrow> string" where
  "reviewText review selector =
     (case FindElementIn review ByCSSSelector selector of
        Inl err \<Rightarrow> []
      | Inr el \<Rightarrow>
          (case Text el of
             Inl err \<Rightarrow> []
           | Inr text \<Rightarrow> if text \<noteq> [] then text else []))"

definition scrapeReview :: "'f float64 \<Rightarrow> element \<Rightarrow> 'f Review outcome" where
  "scrapeReview F review =
     andThen (reviewRating F review) (\<lambda>review_rating.
       Returned
         \<lparr>rv_Rating = review_rating,
          rv_Title = reviewText review ''.BVRRReviewTitleContainer .BVRRReviewTitle'',
          rv_Description = reviewText review ''.BVRRReviewTextContainer .BVRRReviewText'',
          rv_Date = reviewDate review,
          rv_ReviewId = reviewText review
                          ''.BVRRUserNicknameContainer .BVRRUserNickname .BVRRNickname''\<rparr>)"

fun reviewLoop :: "'f float64 \<Rightarrow> element list \<Rightarrow> 'f Review list \<Rightarrow> 'f Review list outcome" where
  "reviewLoop F [] acc = Returned acc"
| "reviewLoop F (review # els) acc =
     andThen (scrapeReview F review) (\<lambda>reviewInfo. reviewLoop F els (acc @ [reviewInfo]))"

definition reviews :: "'f float64 \<Rightarrow> 'f page \<Rightarrow> 'f Review list outcome" where
  "reviews F page =
     (case FindElements page ByCSSSelector
             ''.BVRRDisplayContent .BVRRDisplayContentBody .BVRRContentReview'' of
        Inl err \<Rightarrow> Returned []
      | Inr reviewDiv \<Rightarrow> reviewLoop F reviewDiv [])"

definition tags :: "'f page \<Rightarrow> string list" where
  "tags page =
     (case FindElements page ByCSSSelector ''.itemTagsPosition a'' of
        Inl err \<Rightarrow> []
      | Inr tagElements \<Rightarrow> nonEmptyTexts tagElements [])"

subsection \<open>The whole pipeline\<close>

text \<open>
  \<open>scrapeProduct\<close>. The product starts as \<open>&Product{ProductURL: url}\<close> and every section
  writes its own fields only, so the record is put together at the end from what the
  sections collected; the steps that can end the function run in the order of the source.
  A failed \<open>wd.Get\<close> is logged and extraction goes on; the lookup of
  \<open>.article_image_wrapper\<close> with its script and \<open>closeModals\<close> change nothing the
  function returns. \<open>None\<close>: the scroll loop runs forever.
\<close>

definition scrapeProduct :: "'f float64 \<Rightarrow> 'f page \<Rightarrow> string \<Rightarrow> 'f Product ptr outcome option" where
  "scrapeProduct F page url =
     (case scrollToBottom F page of
        None \<Rightarrow> None
      | Some scrolled \<Rightarrow> Some (
          andThen scrolled (\<lambda>pass.
          andThen (availableColors page) (\<lambda>colors.
          andThen (availableSizes page) (\<lambda>sizes.
          andThen (media page) (\<lambda>mediaList.
          andThen (coordinatedProducts page) (\<lambda>coordinated.
          andThen (sizeChart page) (\<lambda>chart.
          andThen (reviews F page) (\<lambda>reviewList.
            Returned (Ptr
              \<lparr>ProductURL = url,
               Breadcrumbs = breadcrumbs page,
               Category = textField page ''.categoryName'',
               Title = textField page ''.itemTitle'',
               Price = textField page ''.price-value'',
               AvailableColors = colors,
               AvailableSizes = sizes,
               Media = mediaList,
               CoordinatedProducts = coordinated,
               DescriptionHeading =
                 textField page ''.heading.itemName.test-commentItem-topHeading'',
               DescriptionTitle =
                 textField page ''.heading.itemFeature.test-commentItem-subheading'',
               Description =
                 textField page ''.description.clearfix.test-descriptionBlock .description_part.details.test-itemComment-descriptionPart .commentItem-mainText.test-commentItem-mainText'',
               Specifications = specifications page,
               SpecialDescription = specialDescriptions page,
               SizeChart = Some chart,
               SizeRemarks = sizeRemarks page,
               ReviewSummary = reviewSummary F page,
               Reviews = reviewList,
               Tags = tags page\<rparr>))))))))))"

section \<open>Workers\<close>

text \<open>
  A worker receives the URLs of its tasks in order; \<open>session k\<close> is what its session
  answers during its \<open>k\<close>-th task. \<open>selenium.NewRemote\<close> gives the session or an error.
  The result of a worker is the sequence of documents it hands to \<open>InsertOne\<close>.
\<close>

fun processProductLoop ::
  "'f float64 \<Rightarrow> (nat \<Rightarrow> 'f page) \<Rightarrow> nat \<Rightarrow> string list \<Rightarrow> 'f Product list
     \<Rightarrow> 'f Product list outcome option" where
  "processProductLoop F session k [] docs = Some (Returned docs)"
| "processProductLoop F session k (url # urls) docs =
     (case scrapeProduct F (session k) url of
        None \<Rightarrow> None
      | Some Fatal \<Rightarrow> Some Fatal
      | Some Panic \<Rightarrow> Some Panic
      | Some (Returned NilPtr) \<Rightarrow> processProductLoop F session (Suc k) urls docs
      | Some (Returned (Ptr product)) \<Rightarrow>
          processProductLoop F session (Suc k) urls (docs @ [product]))"

definition processProduct ::
  "'f float64 \<Rightarrow> error + (nat \<Rightarrow> 'f page) \<Rightarrow> string list \<Rightarrow> 'f Product list outcome option" where
  "processProduct F NewRemote urls =
     (case NewRemote of
        Inl err \<Rightarrow> Some (Returned [])
      | Inr session \<Rightarrow> processProductLoop F session 0 urls [])"

fun productLinks :: "string \<Rightarrow> int \<Rightarrow> element list \<Rightarrow> ProductURL list \<Rightarrow> ProductURL list" where
  "productLinks category pageNo [] docs = docs"
| "productLinks category pageNo (elem # elems) docs =
     (case GetAttribute elem ''href'' of
        Inl err \<Rightarrow> productLinks category pageNo elems docs
      | Inr href \<Rightarrow>
          if href = [] then productLinks category pageNo elems docs
          else productLinks category pageNo elems
                 (docs @ [\<lparr>pu_Category = category, pu_PageNo = pageNo,
                           pu_URL = ''https://shop.adidas.jp'' @ href\<rparr>]))"

fun processURLsLoop ::
  "'f float64 \<Rightarrow> (nat \<Rightarrow> 'f page) \<Rightarrow> nat \<Rightarrow> string list \<Rightarrow> ProductURL list
     \<Rightarrow> ProductURL list outcome option" where
  "processURLsLoop F session k [] docs = Some (Returned docs)"
| "processURLsLoop F session k (url # urls) docs =
     (case Get (session k) of
        Some err \<Rightarrow> processURLsLoop F session (Suc k) urls docs
      | None \<Rightarrow>
          (case scrollToBottom F (session k) of
             None \<Rightarrow> None
           | Some Fatal \<Rightarrow> Some Fatal
           | Some Panic \<Rightarrow> Some Panic
           | Some (Returned pass) \<Rightarrow>
               (case FindElements (session k) ByCSSSelector
                       ''.articleDisplayCard-children a.image_link'' of
                  Inl err \<Rightarrow> processURLsLoop F session (Suc k) urls docs
                | Inr productElems \<Rightarrow>
                    (let pageNo = extractPageNumber url;
                         category = extractCategory url
                     in if pageNo = - 1 \<or> category = []
                        then processURLsLoop F session (Suc k) urls docs
                        else processURLsLoop F session (Suc k) urls
                               (productLinks category pageNo productElems docs)))))"

definition processURLs ::
  "'f float64 \<Rightarrow> error + (nat \<Rightarrow> 'f page) \<Rightarrow> string list \<Rightarrow> ProductURL list outcome option" where
  "processURLs F NewRemote urls =
     (case NewRemote of
        Inl err \<Rightarrow> Some Fatal
      | Inr session \<Rightarrow> processURLsLoop F session 0 urls [])"

section \<open>Notions the properties are stated with\<close>

text \<open>A string starts with \<open>page=\<close> followed by a digit.\<close>

definition pageOccurs :: "string \<Rightarrow> bool" where
  "pageOccurs s = (\<exists>d rest. isDigit d \<and> s = ''page='' @ d # rest)"

text \<open>
  A measurement is a triple (scrollTop, clientHeight, scrollHeight) of floats; \<open>measured\<close>
  is the pass in which the session answers with it, \<open>satisfying\<close> the test of the loop.
\<close>

definition measured :: "'f \<times> 'f \<times> 'f \<Rightarrow> 'f scroll_step" where
  "measured m =
     (case m of (t, c, h) \<Rightarrow>
        \<lparr>scrollBy = None, scrollHeight = Inr (Float64 h), clientHeight = Inr (Float64 c),
         scrollTop = Inr (Float64 t)\<rparr>)"

definition satisfying :: "'f float64 \<Rightarrow> 'f \<times> 'f \<times> 'f \<Rightarrow> bool" where
  "satisfying F m = (case m of (t, c, h) \<Rightarrow> fge F (fadd F t c) h)"


text \<open>
  The pair a \<open>.contents .content\<close> element yields, when both of its lookups succeed and
  both texts are non-empty.
\<close>

definition captured :: "element \<Rightarrow> SpecialDescription option" where
  "captured content =
     (case FindElementIn content ByCSSSelector ''.tecTextTitle'' of
        Inl err \<Rightarrow> None
      | Inr te \<Rightarrow>
          (case FindElementIn content ByCSSSelector ''div.item_part.illustration img'' of
             Inl err \<Rightarrow> None
           | Inr ie \<Rightarrow>
               if strOf (Text te) \<noteq> [] \<and> strOf (GetAttribute ie ''alt'') \<noteq> []
               then Some \<lparr>sd_Title = strOf (Text te),
                          sd_Description = strOf (GetAttribute ie ''alt'')\<rparr>
               else None))"

section \<open>Concrete pages\<close>

text \<open>
  A stand-in for \<open>float64\<close> on which the model can be evaluated: the integers, with
  \<open>ParseFloat\<close> reading integer literals.
\<close>

definition intFloat64 :: "int float64" where
  "intFloat64 = \<lparr>fzero = 0, fadd = (\<lambda>a b. a + b), fge = (\<lambda>a b. b \<le> a), ParseFloat = Atoi\<rparr>"

text \<open>
  An element with a text, attributes and descendants given by tables; a missing attribute
  or descendant is an error.
\<close>

definition node :: "string \<Rightarrow> (string \<times> string) list \<Rightarrow> (string \<times> element) list \<Rightarrow> element" where
  "node text attributes descendants =
     Element (Inr text)
       (\<lambda>name. case map_of attributes name of None \<Rightarrow> Inl SessionError | Some v \<Rightarrow> Inr v)
       None
       (\<lambda>how selector. case map_of descendants selector of
                          None \<Rightarrow> Inl NoSuchElement | Some el \<Rightarrow> Inr el)"

text \<open>A page given by a table from selectors to elements, on which scrolling settles at once.\<close>

definition settled :: "int scroll_step" where
  "settled = measured (0, 600, 600)"

definition pageOf :: "(string \<times> element list) list \<Rightarrow> int page" where
  "pageOf table =
     \<lparr>Get = None,
      FindElement = (\<lambda>how selector. case map_of table selector of
                                       Some (el # els) \<Rightarrow> Inr el
                                     | _ \<Rightarrow> Inl NoSuchElement),
      FindElements = (\<lambda>how selector. case map_of table selector of
                                        Some els \<Rightarrow> Inr els
                                      | None \<Rightarrow> Inr []),
      scroll = (\<lambda>k. settled)\<rparr>"

text \<open>A review block whose rating image has the title \<open>5\<close>, and a page showing it.\<close>

definition reviewWithoutSlash :: element where
  "reviewWithoutSlash =
     node [] []
       [(''.BVRRReviewDisplayStyle5Header .BVRRRatingNormalImage img'',
         node [] [(''title'', ''5'')] [])]"

definition pageWithReviewWithoutSlash :: "int page" where
  "pageWithReviewWithoutSlash =
     pageOf [(''.BVRRDisplayContent .BVRRDisplayContentBody .BVRRContentReview'',
              [reviewWithoutSlash])]"

text \<open>A review block whose rating image has the title \<open>4.5/5\<close>.\<close>

definition reviewFourAndAHalf :: element where
  "reviewFourAndAHalf =
     node [] []
       [(''.BVRRReviewDisplayStyle5Header .BVRRRatingNormalImage img'',
         node [] [(''title'', ''4.5/5'')] [])]"

text \<open>A review block whose rating image has the title \<open>4 / 5 \<close>, with spaces.\<close>

definition reviewWithSpaces :: element where
  "reviewWithSpaces =
     node [] []
       [(''.BVRRReviewDisplayStyle5Header .BVRRRatingNormalImage img'',
         node [] [(''title'', ''4 / 5 '')] [])]"

text \<open>A coordinated-product card with a price and no image, and a page showing it.\<close>

definition cardWithoutImage :: element where
  "cardWithoutImage =
     node [] [] [(''.price-value.test-price-value'', node ''1,990'' [] [])]"

definition pageWithCardWithoutImage :: "int page" where
  "pageWithCardWithoutImage =
     pageOf [(''.coordinateItems .carouselListitem'', [cardWithoutImage])]"

text \<open>Cards whose image path is deep enough, and too short, for a product number.\<close>

definition cardDeep :: element where
  "cardDeep =
     node [] []
       [(''.coordinate_image img'',
         node [] [(''alt'', ''Shoe''), (''src'', ''/itemimages/goods/IE3437/main.jpg'')] [])]"

definition cardShort :: element where
  "cardShort =
     node [] []
       [(''.coordinate_image img'',
         node [] [(''alt'', ''Shoe''), (''src'', ''/a/b'')] [])]"

text \<open>
  A size table with the columns \<open>cm\<close> and \<open>inch\<close> and the row keys \<open>S\<close> and \<open>M\<close>; the same
  table with both columns headed \<open>cm\<close>.
\<close>

definition cell :: "string \<Rightarrow> element" where
  "cell text = node text [] []"

definition sizeTable :: "int page" where
  "sizeTable =
     pageOf
       [(''.sizeChartTable thead .sizeChartTHeaderCell'', [cell [], cell ''cm'', cell ''inch'']),
        (''.sizeChartTable tbody .sizeChartTRow:nth-of-type(1) .sizeChartTCell span'',
         [cell ''S'', cell ''M'']),
        (''.sizeChartTable tbody .sizeChartTRow:nth-of-type(2) .sizeChartTCell span'',
         [cell ''60'', cell ''64'']),
        (''.sizeChartTable tbody .sizeChartTRow:nth-of-type(3) .sizeChartTCell span'',
         [cell ''23.6'', cell ''25.2''])]"

definition sizeTableRepeated :: "int page" where
  "sizeTableRepeated =
     pageOf
       [(''.sizeChartTable thead .sizeChartTHeaderCell'', [cell ''cm'', cell ''cm'']),
        (''.sizeChartTable tbody .sizeChartTRow:nth-of-type(1) .sizeChartTCell span'',
         [cell ''S'']),
        (''.sizeChartTable tbody .sizeChartTRow:nth-of-type(2) .sizeChartTCell span'',
         [cell ''60'']),
        (''.sizeChartTable tbody .sizeChartTRow:nth-of-type(3) .sizeChartTCell span'',
         [cell ''61''])]"

text \<open>
  Three \<open>.contents .content\<close> elements: the first and the third with a title and an
  illustration, the second with a title only.
\<close>

definition content :: "string \<Rightarrow> string \<Rightarrow> element" where
  "content title alt =
     node [] []
       [(''.tecTextTitle'', node title [] []),
        (''div.item_part.illustration img'', node [] [(''alt'', alt)] [])]"

definition contentWithoutImage :: "string \<Rightarrow> element" where
  "contentWithoutImage title = node [] [] [(''.tecTextTitle'', node title [] [])]"

definition threeContents :: "element list" where
  "threeContents = [content ''Boost'' ''midsole'', contentWithoutImage ''Torsion'',
                    content ''Primeknit'' ''upper'']"

definition pageWithThreeContents :: "int page" where
  "pageWithThreeContents = pageOf [(''.contents .content'', threeContents)]"


text \<open>A category page whose page total reads 3.\<close>

definition categoryPage :: "int page" where
  "categoryPage = pageOf [(''.pageTotal'', [node '' 3 '' [] []])]"

text \<open>Measurements that satisfy the test of the scroll loop from the third on.\<close>

definition threePasses :: "nat \<Rightarrow> int \<times> int \<times> int" where
  "threePasses k = (if k < 2 then (1000 * int k, 600, 3000) else (2400, 600, 3000))"

text \<open>An empty page on which the scroll loop is answered with given measurements.\<close>

definition scrollingPage :: "(nat \<Rightarrow> int \<times> int \<times> int) \<Rightarrow> int page" where
  "scrollingPage ms = (pageOf [])\<lparr>scroll := (\<lambda>j. measured (ms j))\<rparr>"

section \<open>Evaluating the model on concrete pages\<close>

lemma FindElements_pageOf:
  "FindElements (pageOf table) how selector =
     (case map_of table selector of Some els \<Rightarrow> Inr els | None \<Rightarrow> Inr [])"
  by (simp add: pageOf_def)

lemma FindElement_pageOf:
  "FindElement (pageOf table) how selector =
     (case map_of table selector of Some (el # els) \<Rightarrow> Inr el | _ \<Rightarrow> Inl NoSuchElement)"
  by (simp add: pageOf_def)

lemma Get_pageOf: "Get (pageOf table) = None"
  by (simp add: pageOf_def)

lemma node_simps:
  "Text (node text attributes descendants) = Inr text"
  "GetAttribute (node text attributes descendants) name =
     (case map_of attributes name of None \<Rightarrow> Inl SessionError | Some v \<Rightarrow> Inr v)"
  "Click (node text attributes descendants) = None"
  "FindElementIn (node text attributes descendants) how selector =
     (case map_of descendants selector of None \<Rightarrow> Inl NoSuchElement | Some el \<Rightarrow> Inr el)"
  by (simp_all add: node_def)

lemmas fixture_simps =
  FindElements_pageOf FindElement_pageOf Get_pageOf node_simps cell_def content_def
  contentWithoutImage_def

lemmas pipeline_defs =
  scrapeProduct_def andThen_def availableColors_def availableSizes_def media_def
  coordinatedProducts_def sizeChart_def reviews_def breadcrumbs_def textField_def
  specifications_def specialDescriptions_def sizeRemarks_def reviewSummary_def tags_def
  scrapeReview_def reviewRating_def reviewDate_def reviewText_def coordinatedCard_def
  strOf_def errNil_def baseURL_def zeroReviewSummary_def zeroSpecialDescription_def

lemma scrollToBottom_pageOf: "scrollToBottom intFloat64 (pageOf table) = Some (Returned 1)"
  by (simp add: scrollToBottom_def scrollLoop.simps scrollPass_def pageOf_def settled_def
      measured_def intFloat64_def)

section \<open>Page-number extraction\<close>

lemma stripPrefix_Some_iff: "stripPrefix p s = Some r \<longleftrightarrow> s = p @ r"
  unfolding stripPrefix_def
  by (metis append_eq_conv_conj append_take_drop_id option.distinct(1) option.inject)

lemma stripPrefix_None_iff: "stripPrefix p s = None \<longleftrightarrow> (\<forall>r. s \<noteq> p @ r)"
  by (metis stripPrefix_Some_iff option.exhaust option.distinct(1))

lemma takeWhile_nonempty_iff: "takeWhile P r \<noteq> [] \<longleftrightarrow> (\<exists>d q. r = d # q \<and> P d)"
  by (cases r) auto

text \<open>The matcher tries each position from the left and stops at the first occurrence.\<close>

lemma FindStringSubmatch_page_step:
  "FindStringSubmatch_page (c # cs) =
     (if pageOccurs (c # cs)
      then [''page='' @ takeWhile isDigit (drop 5 (c # cs)), takeWhile isDigit (drop 5 (c # cs))]
      else FindStringSubmatch_page cs)"
proof (cases "stripPrefix ''page='' (c # cs)")
  case None
  then have "\<not> pageOccurs (c # cs)"
    unfolding pageOccurs_def stripPrefix_None_iff by blast
  with None show ?thesis by simp
next
  case (Some rest)
  then have eq: "c # cs = ''page='' @ rest" by (simp only: stripPrefix_Some_iff)
  then have d: "drop 5 (c # cs) = rest" by simp
  have "pageOccurs (c # cs) \<longleftrightarrow> takeWhile isDigit rest \<noteq> []"
    unfolding pageOccurs_def takeWhile_nonempty_iff eq by auto
  with Some d show ?thesis by (simp del: drop_Suc_Cons)
qed

lemma FindStringSubmatch_page_none:
  "(\<forall>p. \<not> pageOccurs (drop p url)) \<Longrightarrow> FindStringSubmatch_page url = []"
proof (induction url)
  case Nil
  then show ?case by simp
next
  case (Cons c cs)
  have "\<not> pageOccurs (c # cs)" using Cons.prems [rule_format, of 0] by simp
  moreover have "\<forall>p. \<not> pageOccurs (drop p cs)"
    using Cons.prems [rule_format, of "Suc _"] by simp
  then have "FindStringSubmatch_page cs = []" by (rule Cons.IH)
  ultimately show ?case by (simp only: FindStringSubmatch_page_step if_False)
qed

lemma FindStringSubmatch_page_first:
  assumes "pageOccurs s" and "\<forall>p < length pre. \<not> pageOccurs (drop p (pre @ s))"
  shows "FindStringSubmatch_page (pre @ s) =
           [''page='' @ takeWhile isDigit (drop 5 s), takeWhile isDigit (drop 5 s)]"
  using assms
proof (induction pre)
  case Nil
  then obtain c cs where "s = c # cs" unfolding pageOccurs_def by auto
  with Nil show ?case by (simp only: append_Nil FindStringSubmatch_page_step if_True)
next
  case (Cons c pre)
  have "\<not> pageOccurs (c # pre @ s)" using Cons.prems(2) [rule_format, of 0] by simp
  moreover have "\<forall>p < length pre. \<not> pageOccurs (drop p (pre @ s))"
  proof (intro allI impI)
    fix p assume "p < length pre"
    then show "\<not> pageOccurs (drop p (pre @ s))"
      using Cons.prems(2) [rule_format, of "Suc p"] by simp
  qed
  then have "FindStringSubmatch_page (pre @ s) =
           [''page='' @ takeWhile isDigit (drop 5 s), takeWhile isDigit (drop 5 s)]"
    by (rule Cons.IH [OF Cons.prems(1)])
  ultimately show ?case
    by (simp only: append_Cons FindStringSubmatch_page_step if_False)
qed

lemma Atoi_digits:
  assumes "ds \<noteq> []" and "list_all isDigit ds"
  shows "Atoi ds = (if int (decimal ds) \<le> maxInt then Inr (int (decimal ds)) else Inl NumError)"
proof -
  from assms obtain d rest where ds: "ds = d # rest" and d: "isDigit d"
    by (cases ds) auto
  have "d \<noteq> CHR ''-''" "d \<noteq> CHR ''+''"
    using d by (auto simp: isDigit_def)
  with assms ds show ?thesis
    by (auto simp: Atoi_def Let_def)
qed

lemma digit_run:
  assumes "list_all isDigit ds" and "rest = [] \<or> \<not> isDigit (hd rest)"
  shows "takeWhile isDigit (ds @ rest) = ds"
proof -
  have "takeWhile isDigit rest = []" using assms(2) by (cases rest) auto
  with assms(1) show ?thesis by (simp add: takeWhile_append2 list_all_iff)
qed

lemma pageOccurs_needs_p: "CHR ''p'' \<notin> set url \<Longrightarrow> \<not> pageOccurs (drop p url)"
proof
  assume no: "CHR ''p'' \<notin> set url" and "pageOccurs (drop p url)"
  then obtain rest where "drop p url = CHR ''p'' # rest"
    by (auto simp: pageOccurs_def)
  then have "CHR ''p'' \<in> set (drop p url)" by simp
  with no show False using set_drop_subset [of p url] by blast
qed

text \<open>
  C6, as amended. Let a URL be \<open>pre @ "page=" @ ds @ rest\<close> with \<open>ds\<close> a non-empty run of
  digits that \<open>rest\<close> does not continue, and let no occurrence of \<open>page=\<close> followed by a digit
  start inside \<open>pre\<close> (so this is the first occurrence). Then \<open>extractPageNumber\<close> returns
  the number \<open>ds\<close> denotes when it is at most the largest \<open>int\<close>, and \<open>-1\<close> when it is larger.
  For a URL in which \<open>page=\<close> followed by a digit occurs nowhere it returns \<open>-1\<close>. The
  function is total: no input makes it panic.
\<close>

theorem extractPageNumber_first_occurrence:
  "(ds \<noteq> [] \<and> list_all isDigit ds \<and> (rest = [] \<or> \<not> isDigit (hd rest)) \<and>
    (\<forall>p < length pre. \<not> pageOccurs (drop p (pre @ ''page='' @ ds @ rest))) \<longrightarrow>
      extractPageNumber (pre @ ''page='' @ ds @ rest) =
        (if int (decimal ds) \<le> maxInt then int (decimal ds) else - 1)) \<and>
   ((\<forall>p. \<not> pageOccurs (drop p url)) \<longrightarrow> extractPageNumber url = - 1)"
proof (intro conjI impI)
  assume a: "ds \<noteq> [] \<and> list_all isDigit ds \<and> (rest = [] \<or> \<not> isDigit (hd rest)) \<and>
    (\<forall>p < length pre. \<not> pageOccurs (drop p (pre @ ''page='' @ ds @ rest)))"
  let ?s = "''page='' @ ds @ rest"
  from a obtain d ds' where ds: "ds = d # ds'" and d: "isDigit d" by (cases ds) auto
  have occ: "pageOccurs ?s" unfolding pageOccurs_def ds using d by auto
  have run: "takeWhile isDigit (drop 5 ?s) = ds" using a by (simp add: digit_run)
  have "FindStringSubmatch_page (pre @ ?s) = [''page='' @ ds, ds]"
    using FindStringSubmatch_page_first [OF occ, of pre] a run by simp
  then show "extractPageNumber (pre @ ?s) =
        (if int (decimal ds) \<le> maxInt then int (decimal ds) else - 1)"
    using a by (simp add: extractPageNumber_def Atoi_digits)
next
  assume "\<forall>p. \<not> pageOccurs (drop p url)"
  then have "FindStringSubmatch_page url = []" by (rule FindStringSubmatch_page_none)
  then show "extractPageNumber url = - 1" by (simp add: extractPageNumber_def)
qed

theorem extractPageNumber_first_occurrence_witness:
  "extractPageNumber ''?c=men&page=12&x=1'' = 12 \<and> extractPageNumber ''/men/'' = - 1"
proof -
  have first: "\<forall>p < length ''?c=men&''.
      \<not> pageOccurs (drop p (''?c=men&'' @ ''page='' @ ''12'' @ ''&x=1''))"
    by (simp add: All_less_Suc eval_nat_numeral pageOccurs_def)
  have nowhere: "\<forall>p. \<not> pageOccurs (drop p ''/men/'')"
    by (simp add: pageOccurs_needs_p)
  have digits: "list_all isDigit ''12''" "\<not> isDigit (hd ''&x=1'')"
    by (simp_all add: isDigit_def)
  show ?thesis
    using extractPageNumber_first_occurrence
      [where ds = "''12''" and rest = "''&x=1''" and pre = "''?c=men&''" and url = "''/men/''"]
      first nowhere digits
    by (simp add: decimal_def digitVal_def maxInt_def)
qed

text \<open>
  The claim as stated fails where the digits denote more than the largest \<open>int\<close>: the
  conversion fails and the function returns the sentinel.
\<close>

theorem extractPageNumber_overflow:
  "extractPageNumber ''page=9223372036854775808'' = - 1 \<and>
   decimal ''9223372036854775808'' = 9223372036854775808"
  by (simp add: extractPageNumber_def stripPrefix_def isDigit_def Atoi_def decimal_def
      digitVal_def maxInt_def minInt_def)

section \<open>Session start\<close>

text \<open>
  C9. When \<open>selenium.NewRemote\<close> fails, \<open>processURLs\<close> ends in \<open>log.Fatalf\<close>, which ends
  the process, whatever its tasks; \<open>processProduct\<close> logs and returns, having handed
  nothing to the store.
\<close>

theorem session_start_failure_asymmetry:
  "processURLs F (Inl err) urls = Some Fatal \<and>
   processProduct F (Inl err) urls = Some (Returned [])"
proof
  show "processURLs F (Inl err) urls = Some Fatal"
    by (simp add: processURLs_def)
  show "processProduct F (Inl err) urls = Some (Returned [])"
    by (simp add: processProduct_def)
qed

section \<open>Reviews\<close>

text \<open>
  C3. A review block whose rating image has the title \<open>5\<close>: the title is not empty and
  holds no \<open>/\<close>, so the split has one segment and reading the segment at index 1 panics.
  The review, the remaining reviews and the record are lost with it.
\<close>

theorem review_rating_without_slash_panics:
  "reviewRating intFloat64 reviewWithoutSlash = Panic \<and>
   scrapeProduct intFloat64 pageWithReviewWithoutSlash url = Some Panic"
  by (simp add: pipeline_defs scrollToBottom_pageOf pageWithReviewWithoutSlash_def
      reviewWithoutSlash_def fixture_simps)

section \<open>Coordinated products\<close>

text \<open>
  On a card whose image is found the product number is the segment at index 3 of the
  image path when there are more than three segments and empty otherwise, and the
  product URL is built from it.
\<close>

lemma coordinatedCard_with_image:
  assumes "FindElementIn productElement ByCSSSelector ''.coordinate_image img'' = Inr el"
  shows "\<exists>c. coordinatedCard productElement = Returned c \<and>
           cp_ProductNumber c =
             (if 3 < length (Split (strOf (GetAttribute el ''src'')) (CHR ''/''))
              then Split (strOf (GetAttribute el ''src'')) (CHR ''/'') ! 3 else []) \<and>
           cp_ProductURL c = ''https://shop.adidas.jp/products/'' @ cp_ProductNumber c"
  using assms by (simp add: coordinatedCard_def Let_def)

text \<open>
  C8. A card without the image element: the lookup fails, the \<open>src\<close> attribute is read
  from the nil element all the same, and the function panics; the card contributes no
  entry and the record is lost.
\<close>

theorem card_without_image_panics:
  "coordinatedCard cardWithoutImage = Panic \<and>
   scrapeProduct intFloat64 pageWithCardWithoutImage url = Some Panic"
  by (simp add: pipeline_defs scrollToBottom_pageOf pageWithCardWithoutImage_def
      cardWithoutImage_def fixture_simps)

text \<open>Where the title has the form \<open>value/total\<close>, the segment at index 1 is the total.\<close>

lemma Split_without_separator: "sep \<notin> set s \<Longrightarrow> Split s sep = [s]"
  by (induction s) auto

lemma Split_at_first_separator:
  "sep \<notin> set v \<Longrightarrow> Split (v @ sep # t) sep = v # Split t sep"
  by (induction v) auto

lemma Split_second_segment:
  assumes "sep \<notin> set v" and "sep \<notin> set t"
  shows "1 < length (Split (v @ sep # t) sep)" and "Split (v @ sep # t) sep ! 1 = t"
  using assms by (simp_all add: Split_at_first_separator Split_without_separator)

text \<open>
  What \<open>strings.Trim(s, " ")\<close> does: it removes the spaces around a core that neither
  starts nor ends with a space, and only those.
\<close>

lemma dropWhile_replicate_prefix:
  "core \<noteq> [] \<Longrightarrow> hd core \<noteq> c \<Longrightarrow>
     dropWhile (\<lambda>x. x = c) (replicate a c @ core @ rest) = core @ rest"
  by (induction a) (auto simp: neq_Nil_conv)

lemma dropWhile_only_replicate: "dropWhile (\<lambda>x. x = c) (replicate a c) = []"
  by (induction a) auto

lemma Trim_space_core:
  assumes "core = [] \<or> (hd core \<noteq> CHR '' '' \<and> last core \<noteq> CHR '' '')"
  shows "Trim_space (replicate a (CHR '' '') @ core @ replicate b (CHR '' '')) = core"
proof (cases "core = []")
  case True
  have "replicate a (CHR '' '') @ replicate b (CHR '' '') = replicate (a + b) (CHR '' '')"
    by (simp add: replicate_add)
  with True show ?thesis
    by (simp add: Trim_space_def dropWhile_only_replicate del: replicate_add)
next
  case False
  with assms have ends: "hd core \<noteq> CHR '' ''" "last core \<noteq> CHR '' ''" by simp_all
  have front: "dropWhile (\<lambda>x. x = CHR '' '')
                 (replicate a (CHR '' '') @ core @ replicate b (CHR '' '')) =
               core @ replicate b (CHR '' '')"
    using False ends(1) by (rule dropWhile_replicate_prefix)
  have "rev core \<noteq> []" "hd (rev core) \<noteq> CHR '' ''"
    using False ends(2) by (simp_all add: hd_rev)
  then have "dropWhile (\<lambda>x. x = CHR '' '') (replicate b (CHR '' '') @ rev core @ []) =
               rev core @ []"
    by (rule dropWhile_replicate_prefix)
  then have rear: "dropWhile (\<lambda>x. x = CHR '' '') (rev (core @ replicate b (CHR '' ''))) =
                     rev core"
    by simp
  show ?thesis by (simp only: Trim_space_def front rear rev_rev_ident)
qed

text \<open>
  C4. For a review whose rating image is found and has a title of the form
  \<open>value/total\<close>, the total possibly with spaces around it (no \<open>/\<close> in either part), the
  review is scraped and its rating is what \<open>ParseFloat\<close> makes of the total without the
  spaces around it, the part after the \<open>/\<close> and not the part before it, and 0.0 when that
  does not parse. In particular the titles \<open>4.5/5\<close> and \<open>4 / 5 \<close> store the float that
  \<open>5\<close> parses to.
\<close>

theorem review_rating_is_denominator:
  "(FindElementIn review ByCSSSelector
        ''.BVRRReviewDisplayStyle5Header .BVRRRatingNormalImage img'' = Inr el \<and>
    GetAttribute el ''title'' =
      Inr (numerator @ ''/'' @ replicate a (CHR '' '') @ denominator @ replicate b (CHR '' '')) \<and>
    CHR ''/'' \<notin> set numerator \<and> CHR ''/'' \<notin> set denominator \<and>
    (denominator = [] \<or> (hd denominator \<noteq> CHR '' '' \<and> last denominator \<noteq> CHR '' '')) \<longrightarrow>
      (\<exists>r. scrapeReview F review = Returned r \<and>
           rv_Rating r = (case ParseFloat F denominator of
                            Inl err \<Rightarrow> fzero F | Inr x \<Rightarrow> x))) \<and>
   (FindElementIn review ByCSSSelector
        ''.BVRRReviewDisplayStyle5Header .BVRRRatingNormalImage img'' = Inr el \<and>
    GetAttribute el ''title'' = Inr ''4.5/5'' \<and> ParseFloat F ''5'' = Inr five \<longrightarrow>
      (\<exists>r. scrapeReview F review = Returned r \<and> rv_Rating r = five)) \<and>
   (FindElementIn review ByCSSSelector
        ''.BVRRReviewDisplayStyle5Header .BVRRRatingNormalImage img'' = Inr el \<and>
    GetAttribute el ''title'' = Inr ''4 / 5 '' \<and> ParseFloat F ''5'' = Inr five \<longrightarrow>
      (\<exists>r. scrapeReview F review = Returned r \<and> rv_Rating r = five))"
proof (intro conjI impI)
  assume a: "FindElementIn review ByCSSSelector
        ''.BVRRReviewDisplayStyle5Header .BVRRRatingNormalImage img'' = Inr el \<and>
    GetAttribute el ''title'' =
      Inr (numerator @ ''/'' @ replicate a (CHR '' '') @ denominator @ replicate b (CHR '' '')) \<and>
    CHR ''/'' \<notin> set numerator \<and> CHR ''/'' \<notin> set denominator \<and>
    (denominator = [] \<or> (hd denominator \<noteq> CHR '' '' \<and> last denominator \<noteq> CHR '' ''))"
  define padded where
    "padded = replicate a (CHR '' '') @ denominator @ replicate b (CHR '' '')"
  from a have n: "CHR ''/'' \<notin> set numerator" and d: "CHR ''/'' \<notin> set padded"
    by (auto simp: padded_def)
  note seg = Split_second_segment [OF n d]
  have trim: "Trim_space padded = denominator"
    unfolding padded_def using a by (intro Trim_space_core) simp
  have title: "GetAttribute el ''title'' = Inr (numerator @ CHR ''/'' # padded)"
    using a by (simp add: padded_def)
  have found: "FindElementIn review ByCSSSelector
        ''.BVRRReviewDisplayStyle5Header .BVRRRatingNormalImage img'' = Inr el"
    using a by simp
  have "reviewRating F review =
          Returned (case ParseFloat F denominator of Inl err \<Rightarrow> fzero F | Inr x \<Rightarrow> x)"
    using found title seg trim
    by (simp add: reviewRating_def strOf_def errNil_def split: sum.splits)
  then show "\<exists>r. scrapeReview F review = Returned r \<and>
           rv_Rating r = (case ParseFloat F denominator of
                            Inl err \<Rightarrow> fzero F | Inr x \<Rightarrow> x)"
    by (simp add: scrapeReview_def andThen_def)
next
  assume a: "FindElementIn review ByCSSSelector
        ''.BVRRReviewDisplayStyle5Header .BVRRRatingNormalImage img'' = Inr el \<and>
    GetAttribute el ''title'' = Inr ''4.5/5'' \<and> ParseFloat F ''5'' = Inr five"
  then have "reviewRating F review = Returned five"
    by (simp add: reviewRating_def strOf_def errNil_def Trim_space_def)
  then show "\<exists>r. scrapeReview F review = Returned r \<and> rv_Rating r = five"
    by (simp add: scrapeReview_def andThen_def)
next
  assume a: "FindElementIn review ByCSSSelector
        ''.BVRRReviewDisplayStyle5Header .BVRRRatingNormalImage img'' = Inr el \<and>
    GetAttribute el ''title'' = Inr ''4 / 5 '' \<and> ParseFloat F ''5'' = Inr five"
  then have "reviewRating F review = Returned five"
    by (simp add: reviewRating_def strOf_def errNil_def Trim_space_def)
  then show "\<exists>r. scrapeReview F review = Returned r \<and> rv_Rating r = five"
    by (simp add: scrapeReview_def andThen_def)
qed

theorem review_rating_is_denominator_witness:
  "(\<exists>r. scrapeReview intFloat64 reviewFourAndAHalf = Returned r \<and> rv_Rating r = 5) \<and>
   (\<exists>r. scrapeReview intFloat64 reviewWithSpaces = Returned r \<and> rv_Rating r = 5)"
proof -
  have five: "ParseFloat intFloat64 ''5'' = Inr 5"
    by (simp add: intFloat64_def Atoi_def isDigit_def decimal_def digitVal_def maxInt_def)
  have plain: "\<exists>r. scrapeReview intFloat64 reviewFourAndAHalf = Returned r \<and> rv_Rating r = 5"
    using review_rating_is_denominator
      [where review = reviewFourAndAHalf and el = "node [] [(''title'', ''4.5/5'')] []"
         and F = intFloat64 and five = 5, THEN conjunct2, THEN conjunct1]
      five
    by (simp add: reviewFourAndAHalf_def node_simps)
  have spaced: "\<exists>r. scrapeReview intFloat64 reviewWithSpaces = Returned r \<and> rv_Rating r = 5"
    using review_rating_is_denominator
      [where review = reviewWithSpaces and el = "node [] [(''title'', ''4 / 5 '')] []"
         and F = intFloat64 and numerator = "''4 ''" and denominator = "''5''"
         and a = 1 and b = 1, THEN conjunct1]
      five
    by (simp add: reviewWithSpaces_def node_simps)
  from plain spaced show ?thesis by blast
qed

section \<open>Scroll convergence\<close>

lemma scrollPass_measured: "scrollPass F (measured m) = Returned (satisfying F m)"
  by (cases m) (simp add: scrollPass_def measured_def satisfying_def)

lemma scrollLoop_returns_at_first:
  assumes "satisfying F (ms (k + n))" and "\<forall>i < n. \<not> satisfying F (ms (k + i))"
  shows "scrollLoop F (\<lambda>j. measured (ms j)) k = Some (Returned (Suc (k + n)))"
  using assms
proof (induction n arbitrary: k)
  case 0
  then show ?case by (subst scrollLoop.simps) (simp add: scrollPass_measured)
next
  case (Suc n)
  have now: "\<not> satisfying F (ms k)" using Suc.prems(2) [rule_format, of 0] by simp
  have "satisfying F (ms (Suc k + n))" using Suc.prems(1) by simp
  moreover have "\<forall>i < n. \<not> satisfying F (ms (Suc k + i))"
    using Suc.prems(2) by (auto dest: spec [where x = "Suc _"])
  ultimately have "scrollLoop F (\<lambda>j. measured (ms j)) (Suc k) =
      Some (Returned (Suc (Suc k + n)))"
    by (rule Suc.IH)
  with now show ?case by (subst scrollLoop.simps) (simp add: scrollPass_measured)
qed

text \<open>A loop that ends has met a pass that did not ask for another one.\<close>

lemma scrollLoop_Some_stops:
  "scrollLoop F steps k = Some r \<Longrightarrow> \<exists>n. scrollPass F (steps (k + n)) \<noteq> Returned False"
proof (induction rule: scrollLoop.raw_induct [rotated 1, consumes 1])
  case (1 scrollLoop' F steps k r)
  show ?case
  proof (cases "scrollPass F (steps k) = Returned False")
    case True
    with 1(2) have "scrollLoop' F steps (Suc k) = Some r" by simp
    then obtain n where "scrollPass F (steps (Suc k + n)) \<noteq> Returned False"
      using 1(1) by blast
    then have "scrollPass F (steps (k + Suc n)) \<noteq> Returned False" by simp
    then show ?thesis by blast
  next
    case False
    then have "scrollPass F (steps (k + 0)) \<noteq> Returned False" by simp
    then show ?thesis by blast
  qed
qed

lemma scrollLoop_never_returns:
  assumes "\<forall>i. \<not> satisfying F (ms i)"
  shows "scrollLoop F (\<lambda>j. measured (ms j)) k = None"
proof (rule ccontr)
  assume "scrollLoop F (\<lambda>j. measured (ms j)) k \<noteq> None"
  then obtain r where "scrollLoop F (\<lambda>j. measured (ms j)) k = Some r" by auto
  from scrollLoop_Some_stops [OF this] assms show False
    by (simp add: scrollPass_measured)
qed

text \<open>
  C5, as amended. Let the session answer iteration \<open>j\<close> of the loop (counted from 0) with
  the measurement \<open>ms j\<close>. If \<open>ms n\<close> is the first measurement with scrollTop +
  clientHeight \<open>\<ge>\<close> scrollHeight (in \<open>float64\<close> arithmetic), \<open>scrollToBottom\<close> returns
  upon reading it, having executed exactly \<open>n + 1\<close> iterations: one for each of the \<open>n\<close>
  measurements before it, which do not satisfy the test, and the one that reads \<open>ms n\<close>.
  So whenever some measurement satisfies the test the loop returns, after one iteration
  more than the least index of such a measurement. If no measurement satisfies the test,
  \<open>scrollToBottom\<close> never returns.
\<close>

theorem scrollToBottom_first_satisfying:
  "(scroll page = (\<lambda>j. measured (ms j)) \<and> satisfying F (ms n) \<and>
      (\<forall>i < n. \<not> satisfying F (ms i)) \<longrightarrow>
      scrollToBottom F page = Some (Returned (Suc n))) \<and>
   (scroll page = (\<lambda>j. measured (ms j)) \<and> (\<exists>k. satisfying F (ms k)) \<longrightarrow>
      scrollToBottom F page = Some (Returned (Suc (LEAST k. satisfying F (ms k))))) \<and>
   (scroll page = (\<lambda>j. measured (ms j)) \<and> (\<forall>i. \<not> satisfying F (ms i)) \<longrightarrow>
      scrollToBottom F page = None)"
proof (intro conjI impI)
  assume "scroll page = (\<lambda>j. measured (ms j)) \<and> satisfying F (ms n) \<and>
      (\<forall>i < n. \<not> satisfying F (ms i))"
  then show "scrollToBottom F page = Some (Returned (Suc n))"
    using scrollLoop_returns_at_first [of F ms 0 n] by (simp add: scrollToBottom_def)
next
  assume a: "scroll page = (\<lambda>j. measured (ms j)) \<and> (\<exists>k. satisfying F (ms k))"
  define first where "first = (LEAST k. satisfying F (ms k))"
  from a obtain k where "satisfying F (ms k)" by blast
  then have s: "satisfying F (ms first)" unfolding first_def by (rule LeastI)
  have m: "\<forall>i < first. \<not> satisfying F (ms i)"
  proof (intro allI impI)
    fix i assume "i < first"
    then show "\<not> satisfying F (ms i)" unfolding first_def by (rule not_less_Least)
  qed
  have "scrollToBottom F page = Some (Returned (Suc first))"
    using a s m scrollLoop_returns_at_first [of F ms 0 first] by (simp add: scrollToBottom_def)
  then show "scrollToBottom F page = Some (Returned (Suc (LEAST k. satisfying F (ms k))))"
    unfolding first_def .
next
  assume "scroll page = (\<lambda>j. measured (ms j)) \<and> (\<forall>i. \<not> satisfying F (ms i))"
  then show "scrollToBottom F page = None"
    using scrollLoop_never_returns [of F ms 0] by (simp add: scrollToBottom_def)
qed

theorem scrollToBottom_first_satisfying_witness:
  "scrollToBottom intFloat64 (scrollingPage threePasses) = Some (Returned 3) \<and>
   scrollToBottom intFloat64 (scrollingPage (\<lambda>j. (0, 600, 3000))) = None"
proof -
  have a: "satisfying intFloat64 (threePasses 2)"
    by (simp add: satisfying_def threePasses_def intFloat64_def)
  have b: "\<forall>i < 2. \<not> satisfying intFloat64 (threePasses i)"
    by (simp add: satisfying_def threePasses_def intFloat64_def All_less_Suc eval_nat_numeral)
  have c: "\<forall>i::nat. \<not> satisfying intFloat64 ((\<lambda>j. (0, 600, 3000)) i)"
    by (simp add: satisfying_def intFloat64_def)
  show ?thesis
    using scrollToBottom_first_satisfying
        [where F = intFloat64 and ms = threePasses and n = 2
           and page = "scrollingPage threePasses", THEN conjunct1]
      scrollToBottom_first_satisfying
        [where F = intFloat64 and ms = "\<lambda>j. (0, 600, 3000)"
           and page = "scrollingPage (\<lambda>j. (0, 600, 3000))", THEN conjunct2, THEN conjunct2]
      a b c
    by (simp add: scrollingPage_def)
qed

text \<open>
  The claim as stated counts one iteration too few: the test stands at the end of the
  body, so the iteration that reads the satisfying measurement is executed in full. With
  two non-satisfying measurements before the first satisfying one the loop executes
  three iterations, and on a page whose first measurement satisfies the test it executes
  one, not none.
\<close>

theorem scrollToBottom_iteration_count:
  "\<not> satisfying intFloat64 (threePasses 0) \<and> \<not> satisfying intFloat64 (threePasses 1) \<and>
   satisfying intFloat64 (threePasses 2) \<and>
   scrollToBottom intFloat64 (scrollingPage threePasses) = Some (Returned 3) \<and>
   satisfying intFloat64 (0, 600, 600) \<and>
   scrollToBottom intFloat64 (scrollingPage (\<lambda>j. (0, 600, 600))) = Some (Returned 1)"
  by (simp add: satisfying_def threePasses_def intFloat64_def scrollToBottom_def
      scrollingPage_def scrollLoop.simps scrollPass_measured)

section \<open>Pagination\<close>

lemma showInt_upto_three: "showInt 1 = ''1''" "showInt 2 = ''2''" "showInt 3 = ''3''"
  by code_simp+

lemma pageURLs_three:
  "pageURLs category 3 =
     Some [category @ ''&page=1'', category @ ''&page=2'', category @ ''&page=3'']"
  by (simp add: pageURLs_def maxInt_def upto.simps showInt_upto_three)

lemma TrimSpace_three: "TrimSpace '' 3 '' = ''3''"
  by (simp add: TrimSpace_def leadingSpace_def trailingSpace_def whiteSpace_def eval_nat_numeral)

lemma Atoi_three: "Atoi ''3'' = Inr 3"
  by (simp add: Atoi_def isDigit_def decimal_def digitVal_def maxInt_def)

text \<open>
  C7. \<open>getPageCount\<close> returns the integer that \<open>Atoi\<close> reads from the trimmed text of the
  \<open>.pageTotal\<close> element; it returns 1 when the element is not found, when its text cannot
  be read, and when the trimmed text is not an integer. For a category page whose page
  total reads 3 the producer sends exactly the three URLs of the category with
  \<open>&page=1\<close>, \<open>&page=2\<close> and \<open>&page=3\<close> appended, in that order (the category is the one
  at index 1, the only one \<open>main\<close> paginates).
\<close>

theorem getPageCount_and_page_tasks:
  "(FindElement page ByCSSSelector ''.pageTotal'' = Inr el \<and> Text el = Inr pageTotalText \<and>
      Atoi (TrimSpace pageTotalText) = Inr n \<longrightarrow> getPageCount page = n) \<and>
   (isl (FindElement page ByCSSSelector ''.pageTotal'') \<longrightarrow> getPageCount page = 1) \<and>
   (FindElement page ByCSSSelector ''.pageTotal'' = Inr el \<and> isl (Text el) \<longrightarrow>
      getPageCount page = 1) \<and>
   (FindElement page ByCSSSelector ''.pageTotal'' = Inr el \<and> Text el = Inr pageTotalText \<and>
      isl (Atoi (TrimSpace pageTotalText)) \<longrightarrow> getPageCount page = 1) \<and>
   (FindElement page ByCSSSelector ''.pageTotal'' = Inr el \<and> Text el = Inr pageTotalText \<and>
      Atoi (TrimSpace pageTotalText) = Inr 3 \<and> Get page = None \<and> 1 < length categories \<longrightarrow>
      producer categories page =
        Some (Returned [categories ! 1 @ ''&page=1'', categories ! 1 @ ''&page=2'',
                        categories ! 1 @ ''&page=3'']))"
proof (intro conjI impI)
  assume "FindElement page ByCSSSelector ''.pageTotal'' = Inr el \<and>
      Text el = Inr pageTotalText \<and> Atoi (TrimSpace pageTotalText) = Inr n"
  then show "getPageCount page = n" by (simp add: getPageCount_def)
next
  assume "isl (FindElement page ByCSSSelector ''.pageTotal'')"
  then show "getPageCount page = 1" by (auto simp: getPageCount_def split: sum.splits)
next
  assume "FindElement page ByCSSSelector ''.pageTotal'' = Inr el \<and> isl (Text el)"
  then show "getPageCount page = 1" by (auto simp: getPageCount_def split: sum.splits)
next
  assume "FindElement page ByCSSSelector ''.pageTotal'' = Inr el \<and>
      Text el = Inr pageTotalText \<and> isl (Atoi (TrimSpace pageTotalText))"
  then show "getPageCount page = 1" by (auto simp: getPageCount_def split: sum.splits)
next
  assume a: "FindElement page ByCSSSelector ''.pageTotal'' = Inr el \<and>
      Text el = Inr pageTotalText \<and> Atoi (TrimSpace pageTotalText) = Inr 3 \<and>
      Get page = None \<and> 1 < length categories"
  then have "getPageCount page = 3" by (simp add: getPageCount_def)
  with a show "producer categories page =
        Some (Returned [categories ! 1 @ ''&page=1'', categories ! 1 @ ''&page=2'',
                        categories ! 1 @ ''&page=3''])"
    by (simp add: producer_def pageURLs_three)
qed

theorem getPageCount_and_page_tasks_witness:
  "getPageCount categoryPage = 3 \<and>
   getPageCount (pageOf []) = 1 \<and>
   getPageCount (pageOf [(''.pageTotal'', [node ''three'' [] []])]) = 1 \<and>
   producer [''https://shop.adidas.jp/item/?gender=mens'',
             ''https://shop.adidas.jp/item/?gender=mens&category=wear''] categoryPage =
     Some (Returned [''https://shop.adidas.jp/item/?gender=mens&category=wear&page=1'',
                     ''https://shop.adidas.jp/item/?gender=mens&category=wear&page=2'',
                     ''https://shop.adidas.jp/item/?gender=mens&category=wear&page=3''])"
proof -
  have bad: "isl (Atoi (TrimSpace ''three''))"
    by (simp add: TrimSpace_def leadingSpace_def trailingSpace_def whiteSpace_def
        eval_nat_numeral Atoi_def isDigit_def)
  show ?thesis
    using getPageCount_and_page_tasks
        [where page = categoryPage and el = "node '' 3 '' [] []" and pageTotalText = "'' 3 ''"
           and n = 3
           and categories = "[''https://shop.adidas.jp/item/?gender=mens'',
             ''https://shop.adidas.jp/item/?gender=mens&category=wear'']"]
      getPageCount_and_page_tasks [where page = "pageOf []"]
      getPageCount_and_page_tasks
        [where page = "pageOf [(''.pageTotal'', [node ''three'' [] []])]"
           and el = "node ''three'' [] []" and pageTotalText = "''three''"]
      bad
    by (simp add: categoryPage_def fixture_simps TrimSpace_three Atoi_three)
qed

section \<open>Special descriptions\<close>

text \<open>One pass of the loop keeps the carried pair unless the element yields a new one.\<close>

lemma specialLoop_step:
  "specialLoop (c # cs) sd acc =
     specialLoop cs (case captured c of None \<Rightarrow> sd | Some x \<Rightarrow> x)
       (acc @ [case captured c of None \<Rightarrow> sd | Some x \<Rightarrow> x])"
  by (cases sd) (simp add: captured_def Let_def split: sum.splits)

lemma last_captured_Cons:
  "last (sd # List.map_filter captured (c # cs)) =
     last ((case captured c of None \<Rightarrow> sd | Some x \<Rightarrow> x) # List.map_filter captured cs)"
  by (simp add: List.map_filter_simps split: option.splits)

lemma specialLoop_entries:
  "specialLoop cs sd acc =
     acc @ map (\<lambda>i. last (sd # List.map_filter captured (take (Suc i) cs))) [0..<length cs]"
proof (induction cs arbitrary: sd acc)
  case Nil
  then show ?case by simp
next
  case (Cons c cs)
  let ?sd = "case captured c of None \<Rightarrow> sd | Some x \<Rightarrow> x"
  have first: "last (sd # List.map_filter captured (take (Suc 0) (c # cs))) = ?sd"
    by (simp add: List.map_filter_simps split: option.splits)
  have rest: "map (\<lambda>i. last (sd # List.map_filter captured (take (Suc (Suc i)) (c # cs))))
                [0..<length cs] =
              map (\<lambda>i. last (?sd # List.map_filter captured (take (Suc i) cs))) [0..<length cs]"
    by (simp only: take_Suc_Cons last_captured_Cons)
  have "map (\<lambda>i. last (sd # List.map_filter captured (take (Suc i) (c # cs))))
          [0..<length (c # cs)] =
        ?sd # map (\<lambda>i. last (?sd # List.map_filter captured (take (Suc i) cs))) [0..<length cs]"
    using first rest by (simp add: map_upt_Suc del: upt_Suc take_Suc_Cons last.simps)
  then show ?case
    by (simp only: specialLoop_step Cons.IH append_assoc append_Cons append_Nil)
qed

lemma scrapeProduct_SpecialDescription:
  "scrapeProduct F page url = Some (Returned (Ptr p)) \<Longrightarrow>
     SpecialDescription p = specialDescriptions page"
  by (auto simp: scrapeProduct_def andThen_def split: option.splits outcome.splits)

text \<open>
  C10. When \<open>scrapeProduct\<close> returns a product and the query \<open>.contents .content\<close> gave the
  elements \<open>contents\<close>, the product has exactly one special description for each of them,
  and the entry at index \<open>i\<close> is the pair of the last element up to and including the
  \<open>i\<close>-th that yields one (both lookups succeed, both texts non-empty), or the zero pair
  when there is none: an element that yields no pair repeats the entry before it.
\<close>

theorem special_description_entries:
  "scrapeProduct F page url = Some (Returned (Ptr p)) \<and>
   FindElements page ByCSSSelector ''.contents .content'' = Inr contents \<longrightarrow>
     length (SpecialDescription p) = length contents \<and>
     (\<forall>i < length contents.
        SpecialDescription p ! i =
          last (zeroSpecialDescription # List.map_filter captured (take (Suc i) contents)))"
proof
  assume a: "scrapeProduct F page url = Some (Returned (Ptr p)) \<and>
   FindElements page ByCSSSelector ''.contents .content'' = Inr contents"
  then have "SpecialDescription p = specialDescriptions page"
    by (blast intro: scrapeProduct_SpecialDescription)
  with a have "SpecialDescription p = specialLoop contents zeroSpecialDescription []"
    by (simp add: specialDescriptions_def)
  then show "length (SpecialDescription p) = length contents \<and>
     (\<forall>i < length contents.
        SpecialDescription p ! i =
          last (zeroSpecialDescription # List.map_filter captured (take (Suc i) contents)))"
    by (simp add: specialLoop_entries del: last.simps)
qed

lemma captured_threeContents:
  "captured (content ''Boost'' ''midsole'') =
     Some \<lparr>sd_Title = ''Boost'', sd_Description = ''midsole''\<rparr>"
  "captured (contentWithoutImage ''Torsion'') = None"
  "captured (content ''Primeknit'' ''upper'') =
     Some \<lparr>sd_Title = ''Primeknit'', sd_Description = ''upper''\<rparr>"
  by (simp_all add: captured_def content_def contentWithoutImage_def node_simps strOf_def)

theorem special_description_entries_witness:
  "\<exists>p. scrapeProduct intFloat64 pageWithThreeContents ''https://shop.adidas.jp/products/IE3437/'' =
          Some (Returned (Ptr p)) \<and>
        length (SpecialDescription p) = 3 \<and>
        SpecialDescription p ! 0 = \<lparr>sd_Title = ''Boost'', sd_Description = ''midsole''\<rparr> \<and>
        SpecialDescription p ! 1 = \<lparr>sd_Title = ''Boost'', sd_Description = ''midsole''\<rparr> \<and>
        SpecialDescription p ! 2 = \<lparr>sd_Title = ''Primeknit'', sd_Description = ''upper''\<rparr>"
proof -
  obtain p where
    p: "scrapeProduct intFloat64 pageWithThreeContents ''https://shop.adidas.jp/products/IE3437/'' =
          Some (Returned (Ptr p))"
    by (simp add: pipeline_defs scrollToBottom_pageOf fixture_simps pageWithThreeContents_def)
  have c: "FindElements pageWithThreeContents ByCSSSelector ''.contents .content'' =
             Inr threeContents"
    by (simp add: pageWithThreeContents_def fixture_simps)
  have "length (SpecialDescription p) = length threeContents \<and>
     (\<forall>i < length threeContents.
        SpecialDescription p ! i =
          last (zeroSpecialDescription # List.map_filter captured (take (Suc i) threeContents)))"
    using special_description_entries
      [where F = intFloat64 and page = pageWithThreeContents and p = p
         and url = "''https://shop.adidas.jp/products/IE3437/''" and contents = threeContents]
      p c
    by blast
  then have "length (SpecialDescription p) = 3 \<and>
        SpecialDescription p ! 0 = \<lparr>sd_Title = ''Boost'', sd_Description = ''midsole''\<rparr> \<and>
        SpecialDescription p ! 1 = \<lparr>sd_Title = ''Boost'', sd_Description = ''midsole''\<rparr> \<and>
        SpecialDescription p ! 2 = \<lparr>sd_Title = ''Primeknit'', sd_Description = ''upper''\<rparr>"
    by (simp add: threeContents_def All_less_Suc eval_nat_numeral List.map_filter_simps
        captured_threeContents)
  with p show ?thesis by blast
qed

section \<open>Size-chart assembly\<close>

lemma headerLoop_texts:
  "map Text elems = map Inr texts \<Longrightarrow>
     headerLoop elems acc = Returned (acc @ filter (\<lambda>t. t \<noteq> []) texts)"
proof (induction elems arbitrary: acc texts)
  case Nil
  then show ?case by simp
next
  case (Cons e es)
  then obtain t ts where "texts = t # ts" "Text e = Inr t" "map Text es = map Inr ts"
    by (cases texts) auto
  with Cons.IH [of ts] show ?case by simp
qed

lemma sizeKeyLoop_texts:
  "map Text elems = map Inr texts \<Longrightarrow> sizeKeyLoop elems acc = Returned (acc @ texts)"
proof (induction elems arbitrary: acc texts)
  case Nil
  then show ?case by simp
next
  case (Cons e es)
  then obtain t ts where "texts = t # ts" "Text e = Inr t" "map Text es = map Inr ts"
    by (cases texts) auto
  with Cons.IH [of ts] show ?case by simp
qed

lemma cellLoop_cells:
  assumes "map Text rows = map Inr texts" and "j + length rows \<le> length sizeKeys"
    and "length column = length sizeKeys"
  shows "\<exists>filled. cellLoop sizeKeys j rows column = Returned filled \<and>
           length filled = length column \<and>
           (\<forall>k < length column. filled ! k =
              (if j \<le> k \<and> k < j + length rows then Some [sizeKeys ! k \<mapsto> texts ! (k - j)]
               else column ! k))"
  using assms
proof (induction rows arbitrary: j column texts)
  case Nil
  then show ?case by auto
next
  case (Cons row rows)
  from Cons.prems(1) obtain t ts where
    texts: "texts = t # ts" and t: "Text row = Inr t" and ts: "map Text rows = map Inr ts"
    by (cases texts) auto
  let ?column = "column[j := Some [sizeKeys ! j \<mapsto> t]]"
  have j: "j < length sizeKeys" using Cons.prems(2) by simp
  have "Suc j + length rows \<le> length sizeKeys" using Cons.prems(2) by simp
  moreover have "length ?column = length sizeKeys" using Cons.prems(3) by simp
  ultimately obtain filled where
    filled: "cellLoop sizeKeys (Suc j) rows ?column = Returned filled"
      "length filled = length ?column"
      "\<forall>k < length ?column. filled ! k =
         (if Suc j \<le> k \<and> k < Suc j + length rows then Some [sizeKeys ! k \<mapsto> ts ! (k - Suc j)]
          else ?column ! k)"
    using Cons.IH [OF ts, of "Suc j" ?column] by blast
  have run: "cellLoop sizeKeys j (row # rows) column = Returned filled"
    using t j filled(1) by simp
  have "\<forall>k < length column. filled ! k =
              (if j \<le> k \<and> k < j + length (row # rows)
               then Some [sizeKeys ! k \<mapsto> texts ! (k - j)] else column ! k)"
  proof (intro allI impI)
    fix k assume k: "k < length column"
    show "filled ! k =
              (if j \<le> k \<and> k < j + length (row # rows)
               then Some [sizeKeys ! k \<mapsto> texts ! (k - j)] else column ! k)"
    proof (cases "k = j")
      case True
      with k filled(3) texts show ?thesis by simp
    next
      case False
      with k filled(3) texts show ?thesis
        by (auto simp: Suc_diff_le nth_Cons')
    qed
  qed
  with run filled(2) show ?case by simp
qed

lemma cellLoop_full_row:
  assumes "map Text rows = map Inr texts" and "length rows = length sizeKeys"
  shows "cellLoop sizeKeys 0 rows (replicate (length sizeKeys) None) =
           Returned (map (\<lambda>j. Some [sizeKeys ! j \<mapsto> texts ! j]) [0..<length sizeKeys])"
proof -
  obtain filled where
    filled: "cellLoop sizeKeys 0 rows (replicate (length sizeKeys) None) = Returned filled"
      "length filled = length sizeKeys"
      "\<forall>k < length sizeKeys. filled ! k = Some [sizeKeys ! k \<mapsto> texts ! k]"
    using cellLoop_cells [OF assms(1), of 0 sizeKeys "replicate (length sizeKeys) None"] assms(2)
    by auto
  have "filled = map (\<lambda>j. Some [sizeKeys ! j \<mapsto> texts ! j]) [0..<length sizeKeys]"
    using filled(2,3) by (intro nth_equalityI) simp_all
  with filled(1) show ?thesis by simp
qed


lemma columnLoop_chart:
  assumes "\<forall>a < length headers. \<exists>rows.
             FindElements page ByCSSSelector (rowSelector (int (i + a) + 2)) = Inr rows \<and>
             map Text rows = map Inr (cellText (i + a)) \<and> length rows = length sizeKeys"
  shows "\<exists>chart'. columnLoop page sizeKeys i headers chart = Returned chart' \<and>
           dom chart' = dom chart \<union> set headers \<and>
           (\<forall>h. h \<notin> set headers \<longrightarrow> chart' h = chart h) \<and>
           (\<forall>a < length headers.
              (\<forall>b. a < b \<and> b < length headers \<longrightarrow> headers ! b \<noteq> headers ! a) \<longrightarrow>
              chart' (headers ! a) =
                Some (map (\<lambda>j. Some [sizeKeys ! j \<mapsto> cellText (i + a) ! j])
                        [0..<length sizeKeys]))"
  using assms
proof (induction headers arbitrary: i chart)
  case Nil
  then show ?case by simp
next
  case (Cons header headers)
  let ?row = "\<lambda>k. map (\<lambda>j. Some [sizeKeys ! j \<mapsto> cellText k ! j]) [0..<length sizeKeys]"
  let ?chart = "chart(header \<mapsto> ?row i)"
  from Cons.prems [rule_format, of 0] obtain rows where
    rows: "FindElements page ByCSSSelector (rowSelector (int i + 2)) = Inr rows"
      "map Text rows = map Inr (cellText i)" "length rows = length sizeKeys"
    by auto
  have column: "cellLoop sizeKeys 0 rows (replicate (length sizeKeys) None) = Returned (?row i)"
    using rows(2,3) by (rule cellLoop_full_row)
  have step: "columnLoop page sizeKeys i (header # headers) chart =
                columnLoop page sizeKeys (Suc i) headers ?chart"
    using rows(1) column by (simp add: andThen_def)
  have "\<forall>a < length headers. \<exists>rows.
          FindElements page ByCSSSelector (rowSelector (int (Suc i + a) + 2)) = Inr rows \<and>
          map Text rows = map Inr (cellText (Suc i + a)) \<and> length rows = length sizeKeys"
  proof (intro allI impI)
    fix a assume "a < length headers"
    then show "\<exists>rows.
          FindElements page ByCSSSelector (rowSelector (int (Suc i + a) + 2)) = Inr rows \<and>
          map Text rows = map Inr (cellText (Suc i + a)) \<and> length rows = length sizeKeys"
      using Cons.prems [rule_format, of "Suc a"] by simp
  qed
  from Cons.IH [OF this, of ?chart] obtain chart' where
    chart': "columnLoop page sizeKeys (Suc i) headers ?chart = Returned chart'"
      "dom chart' = dom ?chart \<union> set headers"
      "\<forall>h. h \<notin> set headers \<longrightarrow> chart' h = ?chart h"
      "\<forall>a < length headers.
         (\<forall>b. a < b \<and> b < length headers \<longrightarrow> headers ! b \<noteq> headers ! a) \<longrightarrow>
         chart' (headers ! a) = Some (?row (Suc i + a))"
    by blast
  have keys: "dom chart' = dom chart \<union> set (header # headers)"
    using chart'(2) by auto
  have others: "\<forall>h. h \<notin> set (header # headers) \<longrightarrow> chart' h = chart h"
    using chart'(3) by simp
  have entries: "\<forall>a < length (header # headers).
         (\<forall>b. a < b \<and> b < length (header # headers) \<longrightarrow>
              (header # headers) ! b \<noteq> (header # headers) ! a) \<longrightarrow>
         chart' ((header # headers) ! a) = Some (?row (i + a))"
  proof (intro allI impI)
    fix a
    assume a: "a < length (header # headers)"
      and last: "\<forall>b. a < b \<and> b < length (header # headers) \<longrightarrow>
                    (header # headers) ! b \<noteq> (header # headers) ! a"
    show "chart' ((header # headers) ! a) = Some (?row (i + a))"
    proof (cases a)
      case 0
      have "header \<notin> set headers"
      proof
        assume "header \<in> set headers"
        then obtain b where "b < length headers" "headers ! b = header"
          by (auto simp: in_set_conv_nth)
        with last [rule_format, of "Suc b"] 0 show False by simp
      qed
      with chart'(3) 0 show ?thesis by simp
    next
      case (Suc a')
      have "\<forall>b. a' < b \<and> b < length headers \<longrightarrow> headers ! b \<noteq> headers ! a'"
      proof (intro allI impI)
        fix b assume "a' < b \<and> b < length headers"
        with last [rule_format, of "Suc b"] Suc show "headers ! b \<noteq> headers ! a'" by simp
      qed
      with chart'(4) [rule_format, of a'] a Suc show ?thesis by simp
    qed
  qed
  show ?case
    using step chart'(1) keys others entries by (auto simp del: columnLoop.simps)
qed

text \<open>
  C2, as amended. Let the header query give elements whose texts can all be read, let
  \<open>headers\<close> be the non-empty ones among these texts (N of them), let the query for the
  first body row give the \<open>rowKeys\<close> (M of them), and let the query for body row \<open>i + 2\<close>
  give, for each \<open>i < N\<close>, exactly M cells with the texts \<open>cellText i\<close>. Then the size
  chart is assembled (\<open>sizeChart\<close> returns), its keys are exactly the headers, and a
  header is mapped to the sequence of length M whose entry \<open>j\<close> is the singleton map
  \<open>rowKeys[j] \<mapsto> cellText i ! j\<close> of the last column \<open>i\<close> that carries this header. When
  the N headers are pairwise distinct there are exactly N keys and every column is the
  last one of its header.
\<close>

theorem size_chart_assembly:
  "FindElements page ByCSSSelector ''.sizeChartTable thead .sizeChartTHeaderCell'' =
     Inr headerElems \<and>
   map Text headerElems = map Inr headerTexts \<and>
   headers = filter (\<lambda>t. t \<noteq> []) headerTexts \<and>
   FindElements page ByCSSSelector
     ''.sizeChartTable tbody .sizeChartTRow:nth-of-type(1) .sizeChartTCell span'' =
     Inr keyElems \<and>
   map Text keyElems = map Inr rowKeys \<and>
   (\<forall>i < length headers.
      FindElements page ByCSSSelector (rowSelector (int i + 2)) = Inr (cells i) \<and>
      map Text (cells i) = map Inr (cellText i) \<and> length (cells i) = length rowKeys) \<longrightarrow>
   (\<exists>chart. sizeChart page = Returned chart \<and>
      dom chart = set headers \<and>
      (distinct headers \<longrightarrow> card (dom chart) = length headers) \<and>
      (\<forall>i < length headers.
         (\<forall>k. i < k \<and> k < length headers \<longrightarrow> headers ! k \<noteq> headers ! i) \<longrightarrow>
         chart (headers ! i) =
           Some (map (\<lambda>j. Some [rowKeys ! j \<mapsto> cellText i ! j]) [0..<length rowKeys])))"
proof
  assume a: "FindElements page ByCSSSelector ''.sizeChartTable thead .sizeChartTHeaderCell'' =
     Inr headerElems \<and>
   map Text headerElems = map Inr headerTexts \<and>
   headers = filter (\<lambda>t. t \<noteq> []) headerTexts \<and>
   FindElements page ByCSSSelector
     ''.sizeChartTable tbody .sizeChartTRow:nth-of-type(1) .sizeChartTCell span'' =
     Inr keyElems \<and>
   map Text keyElems = map Inr rowKeys \<and>
   (\<forall>i < length headers.
      FindElements page ByCSSSelector (rowSelector (int i + 2)) = Inr (cells i) \<and>
      map Text (cells i) = map Inr (cellText i) \<and> length (cells i) = length rowKeys)"
  then have hs: "headerLoop headerElems [] = Returned headers"
    by (simp add: headerLoop_texts)
  from a have ks: "sizeKeyLoop keyElems [] = Returned rowKeys"
    by (simp add: sizeKeyLoop_texts)
  have "\<forall>i < length headers. \<exists>rows.
          FindElements page ByCSSSelector (rowSelector (int (0 + i) + 2)) = Inr rows \<and>
          map Text rows = map Inr (cellText (0 + i)) \<and> length rows = length rowKeys"
    using a by simp
  from columnLoop_chart [OF this, of Map.empty] obtain chart where
    chart: "columnLoop page rowKeys 0 headers Map.empty = Returned chart"
      "dom chart = set headers"
      "\<forall>i < length headers.
         (\<forall>k. i < k \<and> k < length headers \<longrightarrow> headers ! k \<noteq> headers ! i) \<longrightarrow>
         chart (headers ! i) =
           Some (map (\<lambda>j. Some [rowKeys ! j \<mapsto> cellText i ! j]) [0..<length rowKeys])"
    by auto
  have run: "sizeChart page = Returned chart"
    using a hs ks chart(1) by (simp add: sizeChart_def andThen_def)
  have "distinct headers \<longrightarrow> card (dom chart) = length headers"
    using chart(2) by (simp add: distinct_card)
  with run chart(2,3) show "\<exists>chart. sizeChart page = Returned chart \<and>
      dom chart = set headers \<and>
      (distinct headers \<longrightarrow> card (dom chart) = length headers) \<and>
      (\<forall>i < length headers.
         (\<forall>k. i < k \<and> k < length headers \<longrightarrow> headers ! k \<noteq> headers ! i) \<longrightarrow>
         chart (headers ! i) =
           Some (map (\<lambda>j. Some [rowKeys ! j \<mapsto> cellText i ! j]) [0..<length rowKeys]))"
    by blast
qed


lemma rowSelector_2_3:
  "rowSelector 2 = ''.sizeChartTable tbody .sizeChartTRow:nth-of-type(2) .sizeChartTCell span''"
  "rowSelector 3 = ''.sizeChartTable tbody .sizeChartTRow:nth-of-type(3) .sizeChartTCell span''"
  by code_simp+

theorem size_chart_assembly_witness:
  "\<exists>chart. sizeChart sizeTable = Returned chart \<and>
     dom chart = {''cm'', ''inch''} \<and> card (dom chart) = 2 \<and>
     chart ''cm'' = Some [Some [''S'' \<mapsto> ''60''], Some [''M'' \<mapsto> ''64'']] \<and>
     chart ''inch'' = Some [Some [''S'' \<mapsto> ''23.6''], Some [''M'' \<mapsto> ''25.2'']]"
proof -
  let ?cells = "\<lambda>i::nat. if i = 0 then [cell ''60'', cell ''64'']
                         else [cell ''23.6'', cell ''25.2'']"
  let ?texts = "\<lambda>i::nat. if i = 0 then [''60'', ''64''] else [''23.6'', ''25.2'']"
  have rows: "\<forall>i < length [''cm'', ''inch''].
      FindElements sizeTable ByCSSSelector (rowSelector (int i + 2)) = Inr (?cells i) \<and>
      map Text (?cells i) = map Inr (?texts i) \<and> length (?cells i) = length [''S'', ''M'']"
    by (simp add: All_less_Suc eval_nat_numeral rowSelector_2_3 sizeTable_def
        FindElements_pageOf cell_def node_simps)
  have upt2: "[0..<2] = [0, Suc 0]" by (simp add: eval_nat_numeral)
  show ?thesis
    using size_chart_assembly
      [where page = sizeTable and headerElems = "[cell [], cell ''cm'', cell ''inch'']"
         and headerTexts = "[[], ''cm'', ''inch'']" and headers = "[''cm'', ''inch'']"
         and keyElems = "[cell ''S'', cell ''M'']" and rowKeys = "[''S'', ''M'']"
         and cells = ?cells and cellText = ?texts]
      rows
    by (simp add: sizeTable_def FindElements_pageOf cell_def node_simps All_less_Suc
        eval_nat_numeral upt2) blast
qed

text \<open>
  The claim as stated fails where a header text occurs twice: the table has two non-empty
  headers, the chart one key, mapped to the cells of the second column.
\<close>

theorem size_chart_repeated_header:
  "headerLoop [cell ''cm'', cell ''cm''] [] = Returned [''cm'', ''cm''] \<and>
   sizeChart sizeTableRepeated = Returned [''cm'' \<mapsto> [Some [''S'' \<mapsto> ''61'']]]"
  by (simp add: sizeChart_def andThen_def sizeTableRepeated_def FindElements_pageOf cell_def
      node_simps rowSelector_2_3)

section \<open>The whole record\<close>


lemma scrapeProduct_SizeChart:
  "scrapeProduct F page url = Some (Returned (Ptr p)) \<Longrightarrow>
     \<exists>chart. sizeChart page = Returned chart \<and> SizeChart p = Some chart"
  by (auto simp: scrapeProduct_def andThen_def split: option.splits outcome.splits)










end
